theory Spec2Isabelle
  imports Complex_Main
begin

section \<open>Python values and exceptions\<close>

text \<open>
  The module \<^verbatim>\<open>addons/hr_timesheet/models/project.py\<close> extends the project and task
  records with timesheet fields. Values that travel through \<^verbatim>\<open>vals\<close> dictionaries and
  search domains are dynamically typed; they are modelled by a datatype of Python values.
  Float fields are modelled as exact reals: rounding errors of IEEE doubles are not part
  of the model.
\<close>

datatype pyval =
    PyNone
  | PyBool bool
  | PyInt int
  | PyFloat real
  | PyStr string
  | PyList "pyval list"
  | PyTuple "pyval list"

text \<open>Python truthiness, as used by \<^verbatim>\<open>if x\<close> and \<^verbatim>\<open>not x\<close>.\<close>

fun truthy :: "pyval \<Rightarrow> bool" where
  "truthy PyNone = False"
| "truthy (PyBool b) = b"
| "truthy (PyInt i) = (i \<noteq> 0)"
| "truthy (PyFloat x) = (x \<noteq> 0)"
| "truthy (PyStr s) = (s \<noteq> [])"
| "truthy (PyList xs) = (xs \<noteq> [])"
| "truthy (PyTuple xs) = (xs \<noteq> [])"

text \<open>\<^verbatim>\<open>isinstance(value, bool)\<close>: only the two booleans, not the integers.\<close>

fun is_bool :: "pyval \<Rightarrow> bool" where
  "is_bool (PyBool b) = True"
| "is_bool v = False"

text \<open>
  An exception carries its message as the message template together with the values
  substituted into it. A \<^verbatim>\<open>RedirectWarning\<close> carries the message, the action it redirects to,
  the button text and the \<^verbatim>\<open>active_ids\<close> of its additional context.
\<close>

datatype exn =
    ValueError string "pyval list"
  | NotImplementedError string "pyval list"
  | TypeError
  | ZeroDivisionError
  | MissingError
  | UserError string
  | ValidationError string
  | RedirectWarning string string string "nat list"

text \<open>
  \<^verbatim>\<open>template % value\<close> for a template with one \<^verbatim>\<open>%s\<close>: a tuple is taken as the argument
  tuple, so it must have exactly one element; any other value is the single argument.
\<close>

fun py_percent :: "string \<Rightarrow> pyval \<Rightarrow> exn + (string \<times> pyval list)" where
  "py_percent t (PyTuple xs) = (if length xs = 1 then Inr (t, xs) else Inl TypeError)"
| "py_percent t v = Inr (t, [v])"

section \<open>Search translators of the computed fields\<close>

text \<open>
  A domain leaf \<^verbatim>\<open>('id', op, (query, params))\<close>. The SQL text is kept as a string with its
  whitespace normalised.
\<close>

type_synonym domain_leaf = "string \<times> string \<times> (string \<times> pyval list)"

definition internal_project_query :: string where
  "internal_project_query =
     ''SELECT C.internal_project_id FROM res_company C WHERE C.internal_project_id IS NOT NULL''"

definition project_overtime_query :: string where
  "project_overtime_query =
     ''SELECT Project.id FROM project_project AS Project JOIN project_task AS Task '' @
     ''ON Project.id = Task.project_id WHERE Project.allocated_hours > 0 '' @
     ''AND Project.allow_timesheets = TRUE AND Task.parent_id IS NULL '' @
     ''AND Task.is_closed IS FALSE GROUP BY Project.id '' @
     ''HAVING Project.allocated_hours - SUM(Task.effective_hours) < 0''"

text \<open>
  \<^verbatim>\<open>Project._search_is_internal_project(operator, value)\<close>. The message is built by
  \<^verbatim>\<open>_('Invalid value: %s', value)\<close>, which passes the value as the one argument.
\<close>

definition search_is_internal_project :: "string \<Rightarrow> pyval \<Rightarrow> exn + domain_leaf list" where
  "search_is_internal_project operator value =
     (if \<not> is_bool value then Inl (ValueError ''Invalid value: %s'' [value])
      else if operator \<notin> set [''='', ''!=''] then
        Inl (ValueError ''Invalid operator: %s'' [PyStr operator])
      else
        let operator_new =
          (if (operator = ''='' \<and> value = PyBool True) \<or> (operator = ''!='' \<and> value = PyBool False)
           then ''inselect'' else ''not inselect'')
        in Inr [(''id'', operator_new, (internal_project_query, []))])"

text \<open>
  \<^verbatim>\<open>Project._search_is_project_overtime(operator, value)\<close>. Here the message is built by
  \<^verbatim>\<open>_('Invalid value: %s') % value\<close>, so the formatting itself can raise.
\<close>

definition search_is_project_overtime :: "string \<Rightarrow> pyval \<Rightarrow> exn + domain_leaf list" where
  "search_is_project_overtime operator value =
     (if \<not> is_bool value then
        (case py_percent ''Invalid value: %s'' value of
           Inl e \<Rightarrow> Inl e
         | Inr (t, args) \<Rightarrow> Inl (ValueError t args))
      else if operator \<notin> set [''='', ''!=''] then
        (case py_percent ''Invalid operator: %s'' (PyStr operator) of
           Inl e \<Rightarrow> Inl e
         | Inr (t, args) \<Rightarrow> Inl (ValueError t args))
      else
        let operator_new =
          (if (operator = ''='' \<and> value = PyBool True) \<or> (operator = ''!='' \<and> value = PyBool False)
           then ''inselect'' else ''not inselect'')
        in Inr [(''id'', operator_new, (project_overtime_query, []))])"

text \<open>
  \<^verbatim>\<open>Task._search_remaining_hours_percentage(operator, value)\<close>. The keys of
  \<^verbatim>\<open>OPERATOR_MAPPING\<close> (imported from the rating module) and the table name
  \<^verbatim>\<open>self._table\<close> are parameters.
\<close>

definition remaining_hours_percentage_query :: "string \<Rightarrow> string \<Rightarrow> string" where
  "remaining_hours_percentage_query table operator =
     ''SELECT id FROM '' @ table @
     '' WHERE remaining_hours > 0 AND planned_hours > 0 AND remaining_hours / planned_hours '' @
     operator @ '' %s''"

definition search_remaining_hours_percentage ::
  "string list \<Rightarrow> string \<Rightarrow> string \<Rightarrow> pyval \<Rightarrow> exn + domain_leaf list" where
  "search_remaining_hours_percentage OPERATOR_MAPPING table operator value =
     (if operator \<notin> set OPERATOR_MAPPING then
        Inl (NotImplementedError ''This operator %s is not supported in this search method.''
               [PyStr operator])
      else Inr [(''id'', ''inselect'', (remaining_hours_percentage_query table operator, [value]))])"

text \<open>The operators of \<^verbatim>\<open>OPERATOR_MAPPING\<close> as the rating module declares them.\<close>

definition rating_OPERATOR_MAPPING :: "string list" where
  "rating_OPERATOR_MAPPING = [''='', ''!='', ''<'', ''<='', ''>'', ''>='']"

section \<open>Records\<close>

text \<open>
  The fields of \<^verbatim>\<open>project.project\<close>, \<^verbatim>\<open>project.task\<close> and \<^verbatim>\<open>account.analytic.line\<close>
  that the module reads or writes. A many2one field holds \<open>None\<close> where Python sees the
  empty record (a falsy value). The field \<^verbatim>\<open>id\<close> is named \<open>id'\<close>.
\<close>

record project =
  id' :: nat
  allow_timesheets :: bool
  analytic_account_id :: "nat option"
  allocated_hours :: real

record task =
  id' :: nat
  project_id :: "nat option"
  parent_id :: "nat option"
  active :: bool
  planned_hours :: real
  effective_hours :: real
  subtask_effective_hours :: real
  remaining_hours :: real
  remaining_hours_percentage :: real
  progress :: real
  overtime :: real

record line =
  id' :: nat
  project_id :: "nat option"
  task_id :: "nat option"
  unit_amount :: real

section \<open>Derived hours of a task\<close>

text \<open>Python's \<^verbatim>\<open>x / y\<close> on floats raises \<^verbatim>\<open>ZeroDivisionError\<close> when \<^verbatim>\<open>y\<close> is zero.\<close>

definition py_truediv :: "real \<Rightarrow> real \<Rightarrow> exn + real" where
  "py_truediv x y = (if y = 0 then Inl ZeroDivisionError else Inr (x / y))"

text \<open>
  Python's built-in \<^verbatim>\<open>round(x, ndigits)\<close>: the nearest multiple of \<open>10\<^sup>-\<^sup>n\<close>, a tie going to
  the even neighbour.
\<close>

definition py_round :: "real \<Rightarrow> nat \<Rightarrow> real" where
  "py_round x ndigits =
     (let s = x * 10 ^ ndigits;
          f = \<lfloor>s\<rfloor>;
          d = s - of_int f
      in of_int (if d < 1 / 2 then f else if 1 / 2 < d then f + 1
                 else if even f then f else f + 1) / 10 ^ ndigits)"

text \<open>
  Modelled from the spec: \<^verbatim>\<open>float_round\<close>, \<^verbatim>\<open>float_is_zero\<close> and \<^verbatim>\<open>float_compare\<close> of
  \<^verbatim>\<open>odoo.tools.float_utils\<close> are imported by the module and are not among its sources. The
  spec describes the comparison as an equality tolerance at the fully-complete boundary,
  and the call passes \<^verbatim>\<open>precision_digits=2\<close>: both operands are rounded half-up (ties away
  from zero) to that many decimals, and the result is \<open>0\<close> when the rounded values differ
  by less than one unit of that precision, otherwise the sign of their difference.
\<close>

definition float_round :: "real \<Rightarrow> nat \<Rightarrow> real" where
  "float_round v precision_digits =
     (let normalized_value = v * 10 ^ precision_digits
      in sgn normalized_value * of_int \<lfloor>\<bar>normalized_value\<bar> + 1 / 2\<rfloor> / 10 ^ precision_digits)"

definition float_is_zero :: "real \<Rightarrow> nat \<Rightarrow> bool" where
  "float_is_zero v precision_digits =
     (\<bar>float_round v precision_digits\<bar> < 1 / 10 ^ precision_digits)"

definition float_compare :: "real \<Rightarrow> real \<Rightarrow> nat \<Rightarrow> int" where
  "float_compare value1 value2 precision_digits =
     (let v1 = float_round value1 precision_digits;
          v2 = float_round value2 precision_digits;
          delta = v1 - v2
      in if float_is_zero delta precision_digits then 0
         else if delta < 0 then - 1 else 1)"

text \<open>
  A compute method loops over the records of \<^verbatim>\<open>self\<close>; the loop stops at the first
  exception.
\<close>

fun for_each :: "('a \<Rightarrow> exn + 'a) \<Rightarrow> 'a list \<Rightarrow> exn + 'a list" where
  "for_each f [] = Inr []"
| "for_each f (x # xs) =
     (case f x of
        Inl e \<Rightarrow> Inl e
      | Inr y \<Rightarrow> (case for_each f xs of Inl e \<Rightarrow> Inl e | Inr ys \<Rightarrow> Inr (y # ys)))"

text \<open>The body of the loop of \<^verbatim>\<open>Task._compute_progress_hours\<close>, for one task.\<close>

definition compute_progress_hours_task :: "task \<Rightarrow> exn + task" where
  "compute_progress_hours_task t =
     (if planned_hours t > 0 then
        let task_total_hours = effective_hours t + subtask_effective_hours t;
            t1 = t\<lparr>overtime := max (task_total_hours - planned_hours t) 0\<rparr>
        in if float_compare task_total_hours (planned_hours t) 2 \<ge> 0 then
             Inr (t1\<lparr>progress := 100\<rparr>)
           else
             (case py_truediv (100 * task_total_hours) (planned_hours t) of
                Inl e \<Rightarrow> Inl e
              | Inr q \<Rightarrow> Inr (t1\<lparr>progress := py_round q 2\<rparr>))
      else Inr (t\<lparr>progress := 0, overtime := 0\<rparr>))"

definition compute_progress_hours :: "task list \<Rightarrow> exn + task list" where
  "compute_progress_hours self = for_each compute_progress_hours_task self"

text \<open>The body of the loop of \<^verbatim>\<open>Task._compute_remaining_hours_percentage\<close>.\<close>

definition compute_remaining_hours_percentage_task :: "task \<Rightarrow> exn + task" where
  "compute_remaining_hours_percentage_task t =
     (if planned_hours t > 0 then
        (case py_truediv (remaining_hours t) (planned_hours t) of
           Inl e \<Rightarrow> Inl e
         | Inr q \<Rightarrow> Inr (t\<lparr>remaining_hours_percentage := q\<rparr>))
      else Inr (t\<lparr>remaining_hours_percentage := 0\<rparr>))"

definition compute_remaining_hours_percentage :: "task list \<Rightarrow> exn + task list" where
  "compute_remaining_hours_percentage self =
     for_each compute_remaining_hours_percentage_task self"


section \<open>The records in the database\<close>

text \<open>
  The tables the module works on: projects, tasks, timesheet lines
  (\<^verbatim>\<open>account.analytic.line\<close>) and the ids of the analytic accounts. A record set
  \<^verbatim>\<open>self\<close> is the list of its ids. A stateful method returns the exception it raised, if
  any, together with the state of the tables at that moment.
\<close>

record db =
  projects :: "project list"
  tasks :: "task list"
  lines :: "line list"
  analytic_accounts :: "nat list"

type_synonym vals = "string \<rightharpoonup> pyval"

text \<open>\<^verbatim>\<open>values.get(key)\<close> and \<^verbatim>\<open>values.get(key, default)\<close>.\<close>

definition py_get :: "vals \<Rightarrow> string \<Rightarrow> pyval" where
  "py_get values k = (case values k of None \<Rightarrow> PyNone | Some v \<Rightarrow> v)"

definition py_get_default :: "vals \<Rightarrow> string \<Rightarrow> pyval \<Rightarrow> pyval" where
  "py_get_default values k d = (case values k of None \<Rightarrow> d | Some v \<Rightarrow> v)"

text \<open>The record a many2one value denotes: a positive id, or the empty record.\<close>

fun to_many2one :: "pyval \<Rightarrow> nat option" where
  "to_many2one (PyInt i) = (if 0 < i then Some (nat i) else None)"
| "to_many2one v = None"

definition find_project :: "db \<Rightarrow> nat \<Rightarrow> project option" where
  "find_project d i = find (\<lambda>p. project.id' p = i) (projects d)"

definition find_task :: "db \<Rightarrow> nat \<Rightarrow> task option" where
  "find_task d i = find (\<lambda>t. task.id' t = i) (tasks d)"

text \<open>The one2many fields \<^verbatim>\<open>timesheet_ids\<close> of a project and of a task.\<close>

definition project_timesheet_ids :: "db \<Rightarrow> nat \<Rightarrow> line list" where
  "project_timesheet_ids d i = filter (\<lambda>l. line.project_id l = Some i) (lines d)"

definition task_timesheet_ids :: "db \<Rightarrow> nat \<Rightarrow> line list" where
  "task_timesheet_ids d i = filter (\<lambda>l. task_id l = Some i) (lines d)"

text \<open>
  Modelled from the spec: the record write of the host framework is not among the
  sources. It assigns the fields named in \<^verbatim>\<open>values\<close> on every record of \<^verbatim>\<open>self\<close> and leaves
  every other record as it is. \<open>update_records\<close> applies a change to the records of
  \<^verbatim>\<open>self\<close>; \<open>orm_task_write\<close> and \<open>orm_line_write\<close> assign \<^verbatim>\<open>project_id\<close>, the one field
  this module hooks.
\<close>

definition update_records :: "('a \<Rightarrow> nat) \<Rightarrow> nat list \<Rightarrow> ('a \<Rightarrow> 'a) \<Rightarrow> 'a list \<Rightarrow> 'a list" where
  "update_records ident self f rs = map (\<lambda>r. if ident r \<in> set self then f r else r) rs"

definition assign_task :: "vals \<Rightarrow> task \<Rightarrow> task" where
  "assign_task values t =
     (case values ''project_id'' of
        None \<Rightarrow> t
      | Some v \<Rightarrow> t\<lparr>task.project_id := to_many2one v\<rparr>)"

definition orm_task_write :: "nat list \<Rightarrow> vals \<Rightarrow> db \<Rightarrow> exn option \<times> db" where
  "orm_task_write self values d =
     (None, d\<lparr>tasks := update_records task.id' self (assign_task values) (tasks d)\<rparr>)"

definition assign_line :: "vals \<Rightarrow> line \<Rightarrow> line" where
  "assign_line values l =
     (case values ''project_id'' of
        None \<Rightarrow> l
      | Some v \<Rightarrow> l\<lparr>line.project_id := to_many2one v\<rparr>)"

definition orm_line_write :: "nat list \<Rightarrow> vals \<Rightarrow> db \<Rightarrow> exn option \<times> db" where
  "orm_line_write self values d =
     (None, d\<lparr>lines := update_records line.id' self (assign_line values) (lines d)\<rparr>)"

section \<open>Writing a task\<close>

text \<open>\<^verbatim>\<open>Task._get_timesheet\<close>: the timesheet lines of the tasks of \<^verbatim>\<open>self\<close>.\<close>

definition Task_get_timesheet :: "nat list \<Rightarrow> db \<Rightarrow> line list" where
  "Task_get_timesheet self d =
     filter (\<lambda>l. case task_id l of None \<Rightarrow> False | Some t \<Rightarrow> t \<in> set self) (lines d)"

text \<open>
  \<^verbatim>\<open>self.env['project.project'].browse(v).allow_timesheets\<close>: false on the empty record
  set, the field of the project otherwise; reading a record that does not exist raises.
\<close>

definition browse_allow_timesheets :: "db \<Rightarrow> pyval \<Rightarrow> exn + bool" where
  "browse_allow_timesheets d v =
     (case to_many2one v of
        None \<Rightarrow> Inr False
      | Some i \<Rightarrow>
          (case find_project d i of
             None \<Rightarrow> Inl MissingError
           | Some p \<Rightarrow> Inr (project.allow_timesheets p)))"

text \<open>\<^verbatim>\<open>Task.write(values)\<close>.\<close>

definition Task_write :: "nat list \<Rightarrow> vals \<Rightarrow> db \<Rightarrow> exn option \<times> db" where
  "Task_write self values d =
     (if values ''project_id'' \<noteq> None \<and> \<not> truthy (py_get values ''project_id'') \<and>
         Task_get_timesheet self d \<noteq> []
      then (Some (UserError
              ''This task must be part of a project because there are some timesheets linked to it.''),
            d)
      else
        (case orm_task_write self values d of
           (Some e, d1) \<Rightarrow> (Some e, d1)
         | (None, d1) \<Rightarrow>
             if values ''project_id'' \<noteq> None then
               (case browse_allow_timesheets d1 (py_get values ''project_id'') of
                  Inl e \<Rightarrow> (Some e, d1)
                | Inr allow \<Rightarrow>
                    if allow then
                      orm_line_write (map line.id' (Task_get_timesheet self d1))
                        [''project_id'' \<mapsto> py_get values ''project_id''] d1
                    else (None, d1))
             else (None, d1)))"

section \<open>Deleting projects and tasks\<close>

text \<open>
  \<^verbatim>\<open>Project._unlink_except_contains_entries\<close>. The action of the warning is kept as the
  external id that \<^verbatim>\<open>self.env.ref\<close> resolves.
\<close>

definition Project_unlink_except_contains_entries :: "nat list \<Rightarrow> db \<Rightarrow> exn + unit" where
  "Project_unlink_except_contains_entries self d =
     (let projects_with_timesheets = filter (\<lambda>p. project_timesheet_ids d p \<noteq> []) self
      in if projects_with_timesheets \<noteq> [] then
           Inl (RedirectWarning
                  (if length projects_with_timesheets > 1 then
                     ''These projects have some timesheet entries referencing them. Before removing these projects, you have to remove these timesheet entries.''
                   else
                     ''This project has some timesheet entries referencing it. Before removing this project, you have to remove these timesheet entries.'')
                  ''hr_timesheet.timesheet_action_project''
                  ''See timesheet entries''
                  projects_with_timesheets)
         else Inr ())"

text \<open>
  The \<^verbatim>\<open>_read_group\<close> of \<^verbatim>\<open>Task._unlink_except_contains_entries\<close>: one group, hence one
  id, for each task of \<^verbatim>\<open>self\<close> that some timesheet line references. The order of the groups
  is the framework's; here it is the order of first appearance in the table of lines.
\<close>

definition read_group_task_ids :: "nat list \<Rightarrow> db \<Rightarrow> nat list" where
  "read_group_task_ids self d =
     remdups (concat (map (\<lambda>l. case task_id l of None \<Rightarrow> [] | Some t \<Rightarrow> [t])
                        (Task_get_timesheet self d)))"

definition Task_unlink_except_contains_entries :: "nat list \<Rightarrow> db \<Rightarrow> exn + unit" where
  "Task_unlink_except_contains_entries self d =
     (let task_with_timesheets_ids = read_group_task_ids self d
      in if task_with_timesheets_ids \<noteq> [] then
           Inl (RedirectWarning
                  (if length task_with_timesheets_ids > 1 then
                     ''These tasks have some timesheet entries referencing them. Before removing these tasks, you have to remove these timesheet entries.''
                   else
                     ''This task has some timesheet entries referencing it. Before removing this task, you have to remove these timesheet entries.'')
                  ''hr_timesheet.timesheet_action_task''
                  ''See timesheet entries''
                  task_with_timesheets_ids)
         else Inr ())"

text \<open>
  Modelled from the spec: \<^verbatim>\<open>unlink\<close> of the host framework is not among the sources. The
  module hooks "before delete": the hook runs first, and the records of \<^verbatim>\<open>self\<close> are
  deleted only when it raises nothing.
\<close>

definition Project_unlink :: "nat list \<Rightarrow> db \<Rightarrow> exn option \<times> db" where
  "Project_unlink self d =
     (case Project_unlink_except_contains_entries self d of
        Inl e \<Rightarrow> (Some e, d)
      | Inr u \<Rightarrow> (None, d\<lparr>projects := filter (\<lambda>p. project.id' p \<notin> set self) (projects d)\<rparr>))"

definition Task_unlink :: "nat list \<Rightarrow> db \<Rightarrow> exn option \<times> db" where
  "Task_unlink self d =
     (case Task_unlink_except_contains_entries self d of
        Inl e \<Rightarrow> (Some e, d)
      | Inr u \<Rightarrow> (None, d\<lparr>tasks := filter (\<lambda>t. task.id' t \<notin> set self) (tasks d)\<rparr>))"

text \<open>A small database: three projects, a task with a timesheet line and its archived sub-task.\<close>

definition example_db :: db where
  "example_db =
     \<lparr>projects =
        [\<lparr>project.id' = 1, allow_timesheets = True, analytic_account_id = Some 1, allocated_hours = 0\<rparr>,
         \<lparr>project.id' = 2, allow_timesheets = True, analytic_account_id = Some 2, allocated_hours = 0\<rparr>,
         \<lparr>project.id' = 3, allow_timesheets = False, analytic_account_id = None, allocated_hours = 0\<rparr>],
      tasks =
        [\<lparr>task.id' = 1, project_id = Some 1, parent_id = None, active = True,
          planned_hours = 8, effective_hours = 2, subtask_effective_hours = 3,
          remaining_hours = 3, remaining_hours_percentage = 0, progress = 0, overtime = 0\<rparr>,
         \<lparr>task.id' = 2, project_id = Some 1, parent_id = Some 1, active = False,
          planned_hours = 0, effective_hours = 3, subtask_effective_hours = 0,
          remaining_hours = 0, remaining_hours_percentage = 0, progress = 0, overtime = 0\<rparr>],
      lines =
        [\<lparr>line.id' = 1, project_id = Some 1, task_id = Some 1, unit_amount = 2\<rparr>],
      analytic_accounts = [1, 2]\<rparr>"

section \<open>Creating and writing a project\<close>

text \<open>\<^verbatim>\<open>Project._check_allow_timesheet\<close>, the constraint on the two fields.\<close>

fun check_allow_timesheet :: "project list \<Rightarrow> exn + unit" where
  "check_allow_timesheet [] = Inr ()"
| "check_allow_timesheet (p # ps) =
     (if project.allow_timesheets p \<and> analytic_account_id p = None then
        Inl (ValidationError ''You cannot use timesheets without an analytic account.'')
      else check_allow_timesheet ps)"

text \<open>
  \<^verbatim>\<open>Project._compute_allow_timesheets\<close> on a stored record, whose \<^verbatim>\<open>_origin\<close> is the
  record itself: a project without an analytic account stops allowing timesheets.
\<close>

definition compute_allow_timesheets :: "project \<Rightarrow> project" where
  "compute_allow_timesheets p =
     (if analytic_account_id p = None then p\<lparr>project.allow_timesheets := False\<rparr> else p)"

text \<open>
  Modelled from the spec: the write and the create of the host framework are not among
  the sources. A write assigns the fields named in \<^verbatim>\<open>values\<close> on the records of \<^verbatim>\<open>self\<close>,
  recomputes \<^verbatim>\<open>allow_timesheets\<close> when the field it depends on was written and it was not
  written itself, and then runs the validation check, which the spec has executed on
  every write of the two fields. A create stores one new record for each dictionary,
  a field taking its default where the dictionary has no value for it, and runs the
  validation check on the new records.
\<close>

definition assign_project :: "vals \<Rightarrow> project \<Rightarrow> project" where
  "assign_project values p =
     (let p1 = (case values ''allow_timesheets'' of
                  None \<Rightarrow> p
                | Some v \<Rightarrow> p\<lparr>project.allow_timesheets := truthy v\<rparr>)
      in case values ''analytic_account_id'' of
           None \<Rightarrow> p1
         | Some v \<Rightarrow> p1\<lparr>analytic_account_id := to_many2one v\<rparr>)"

definition orm_project_write :: "nat list \<Rightarrow> vals \<Rightarrow> db \<Rightarrow> exn option \<times> db" where
  "orm_project_write self values d =
     (let ps1 = update_records project.id' self (assign_project values) (projects d);
          ps2 = (if values ''analytic_account_id'' \<noteq> None \<and> values ''allow_timesheets'' = None
                 then update_records project.id' self compute_allow_timesheets ps1
                 else ps1);
          d2 = d\<lparr>projects := ps2\<rparr>
      in if values ''allow_timesheets'' \<noteq> None \<or> values ''analytic_account_id'' \<noteq> None then
           (case check_allow_timesheet (filter (\<lambda>p. project.id' p \<in> set self) ps2) of
              Inl e \<Rightarrow> (Some e, d2)
            | Inr u \<Rightarrow> (None, d2))
         else (None, d2))"

definition fresh_id :: "nat list \<Rightarrow> nat" where
  "fresh_id ids = Suc (fold max ids 0)"

definition new_project :: "vals \<Rightarrow> vals \<Rightarrow> nat \<Rightarrow> project" where
  "new_project defaults values i =
     \<lparr>project.id' = i,
      allow_timesheets =
        truthy (py_get_default values ''allow_timesheets'' (py_get defaults ''allow_timesheets'')),
      analytic_account_id =
        to_many2one
          (py_get_default values ''analytic_account_id'' (py_get defaults ''analytic_account_id'')),
      allocated_hours = 0\<rparr>"

fun new_projects :: "vals \<Rightarrow> vals list \<Rightarrow> nat list \<Rightarrow> project list" where
  "new_projects defaults [] ids = []"
| "new_projects defaults (values # vals_list) ids =
     new_project defaults values (fresh_id ids) #
     new_projects defaults vals_list (fresh_id ids # ids)"

definition orm_project_create :: "vals \<Rightarrow> vals list \<Rightarrow> db \<Rightarrow> exn option \<times> db" where
  "orm_project_create defaults vals_list d =
     (let created = new_projects defaults vals_list (map project.id' (projects d));
          d1 = d\<lparr>projects := projects d @ created\<rparr>
      in case check_allow_timesheet created of
           Inl e \<Rightarrow> (Some e, d1)
         | Inr u \<Rightarrow> (None, d1))"

text \<open>
  Modelled from the spec: \<^verbatim>\<open>_create_analytic_account_from_values\<close> and
  \<^verbatim>\<open>_create_analytic_account\<close> belong to the project module and are not among the
  sources. The spec has an analytic account auto-provisioned: the first creates a new
  analytic account and returns it, the second creates one and links it to the project.
\<close>

definition create_analytic_account_from_values :: "vals \<Rightarrow> db \<Rightarrow> nat \<times> db" where
  "create_analytic_account_from_values values d =
     (let a = fresh_id (analytic_accounts d)
      in (a, d\<lparr>analytic_accounts := analytic_accounts d @ [a]\<rparr>))"

definition create_analytic_account :: "nat \<Rightarrow> db \<Rightarrow> db" where
  "create_analytic_account i d =
     (let a = fresh_id (analytic_accounts d)
      in d\<lparr>analytic_accounts := analytic_accounts d @ [a],
           projects := update_records project.id' [i]
                         (\<lambda>p. p\<lparr>analytic_account_id := Some a\<rparr>) (projects d)\<rparr>)"

text \<open>
  The loop of \<^verbatim>\<open>Project.create\<close> over \<^verbatim>\<open>vals_list\<close>, run before the records are stored. The
  dictionary \<^verbatim>\<open>defaults\<close> is the result of \<^verbatim>\<open>default_get\<close>.
\<close>

fun create_provision :: "vals \<Rightarrow> vals list \<Rightarrow> db \<Rightarrow> vals list \<times> db" where
  "create_provision defaults [] d = ([], d)"
| "create_provision defaults (values # vals_list) d =
     (let allow_timesheets =
            py_get_default values ''allow_timesheets'' (py_get defaults ''allow_timesheets'');
          analytic_account_id =
            py_get_default values ''analytic_account_id'' (py_get defaults ''analytic_account_id'')
      in if truthy allow_timesheets \<and> \<not> truthy analytic_account_id then
           (case create_analytic_account_from_values values d of
              (a, d1) \<Rightarrow>
                (case create_provision defaults vals_list d1 of
                   (rest, d2) \<Rightarrow> (values(''analytic_account_id'' \<mapsto> PyInt (int a)) # rest, d2)))
         else
           (case create_provision defaults vals_list d of
              (rest, d2) \<Rightarrow> (values # rest, d2)))"

text \<open>\<^verbatim>\<open>Project.create(vals_list)\<close>.\<close>

definition Project_create :: "vals \<Rightarrow> vals list \<Rightarrow> db \<Rightarrow> exn option \<times> db" where
  "Project_create defaults vals_list d =
     (case create_provision defaults vals_list d of
        (vals_list1, d1) \<Rightarrow> orm_project_create defaults vals_list1 d1)"

text \<open>The loop of \<^verbatim>\<open>Project.write\<close> over the projects of \<^verbatim>\<open>self\<close>.\<close>

fun write_provision :: "nat list \<Rightarrow> db \<Rightarrow> db" where
  "write_provision [] d = d"
| "write_provision (i # self) d =
     write_provision self
       (case find_project d i of
          None \<Rightarrow> d
        | Some p \<Rightarrow> if analytic_account_id p = None then create_analytic_account i d else d)"

text \<open>\<^verbatim>\<open>Project.write(values)\<close>.\<close>

definition Project_write :: "nat list \<Rightarrow> vals \<Rightarrow> db \<Rightarrow> exn option \<times> db" where
  "Project_write self values d =
     (let d1 = (if truthy (py_get values ''allow_timesheets'') \<and>
                   \<not> truthy (py_get values ''analytic_account_id'')
                then write_provision self d else d)
      in orm_project_write self values d1)"

text \<open>
  Modelled from the spec: an exception propagates to the request-handling layer of the
  host framework, which rolls the transaction back; the state that persists after a call
  is the new one when it returned normally and the old one when it raised.
\<close>

definition persisted :: "db \<Rightarrow> exn option \<times> db \<Rightarrow> db" where
  "persisted d r = (case r of (None, d1) \<Rightarrow> d1 | (Some e, d1) \<Rightarrow> d)"

text \<open>The invariant: a project that allows timesheets has an analytic account.\<close>

definition timesheets_need_account :: "project \<Rightarrow> bool" where
  "timesheets_need_account p = (\<not> (project.allow_timesheets p \<and> analytic_account_id p = None))"

definition invariant :: "db \<Rightarrow> bool" where
  "invariant d = list_all timesheets_need_account (projects d)"

text \<open>The condition under which the loop of \<^verbatim>\<open>Project.create\<close> creates an analytic account.\<close>

definition needs_account :: "vals \<Rightarrow> vals \<Rightarrow> bool" where
  "needs_account defaults vs =
     (truthy (py_get_default vs ''allow_timesheets'' (py_get defaults ''allow_timesheets'')) \<and>
      \<not> truthy (py_get_default vs ''analytic_account_id'' (py_get defaults ''analytic_account_id'')))"

section \<open>Hours spent on sub-tasks\<close>

text \<open>
  The one2many field \<^verbatim>\<open>child_ids\<close> of a task: the tasks whose parent it is. With
  \<^verbatim>\<open>active_test\<close> set in the context only the active ones are read; the compute method
  reads with \<^verbatim>\<open>active_test=False\<close>, so archived sub-tasks are included.
\<close>

definition child_ids :: "bool \<Rightarrow> db \<Rightarrow> nat \<Rightarrow> task list" where
  "child_ids active_test d i =
     filter (\<lambda>c. parent_id c = Some i \<and> (if active_test then active c else True)) (tasks d)"

text \<open>Python's \<^verbatim>\<open>sum\<close>: the items are added from left to right, starting from 0.\<close>

definition py_sum :: "real list \<Rightarrow> real" where
  "py_sum xs = foldl (+) 0 xs"

text \<open>The sum that \<^verbatim>\<open>Task._compute_subtask_effective_hours\<close> assigns to a task.\<close>

definition subtask_hours_sum :: "db \<Rightarrow> nat \<Rightarrow> real" where
  "subtask_hours_sum d i =
     py_sum (map (\<lambda>child_task. effective_hours child_task + subtask_effective_hours child_task)
               (child_ids False d i))"

text \<open>\<^verbatim>\<open>Task._compute_subtask_effective_hours\<close>: the loop over the tasks of \<^verbatim>\<open>self\<close>.\<close>

fun compute_subtask_effective_hours :: "nat list \<Rightarrow> db \<Rightarrow> db" where
  "compute_subtask_effective_hours [] d = d"
| "compute_subtask_effective_hours (i # self) d =
     compute_subtask_effective_hours self
       (d\<lparr>tasks := update_records task.id' [i]
                      (\<lambda>t. t\<lparr>subtask_effective_hours := subtask_hours_sum d i\<rparr>) (tasks d)\<rparr>)"

text \<open>The parent of the task with a given id, if the task exists and has one.\<close>

definition parent_of :: "db \<Rightarrow> nat \<Rightarrow> nat option" where
  "parent_of d i = (case find_task d i of None \<Rightarrow> None | Some t \<Rightarrow> parent_id t)"

text \<open>
  Modelled from the spec: the recomputation of stored computed fields is the host
  framework's and is not among the sources. The field is declared recursive and depends
  on \<^verbatim>\<open>child_ids.effective_hours\<close> and \<^verbatim>\<open>child_ids.subtask_effective_hours\<close>; the spec has
  it recomputed whenever any descendant's hours change. So when one of the two fields
  changes on a task, the compute method runs on its parent, which changes the field of
  the parent and so triggers the parent's parent in turn. The first argument bounds the
  number of rounds.
\<close>

fun recompute_parents :: "nat \<Rightarrow> nat \<Rightarrow> db \<Rightarrow> db" where
  "recompute_parents 0 i d = d"
| "recompute_parents (Suc n) i d =
     (case parent_of d i of
        None \<Rightarrow> d
      | Some p \<Rightarrow> recompute_parents n p (compute_subtask_effective_hours [p] d))"

definition set_effective_hours :: "nat \<Rightarrow> nat \<Rightarrow> real \<Rightarrow> db \<Rightarrow> db" where
  "set_effective_hours n i h d =
     recompute_parents n i
       (d\<lparr>tasks := update_records task.id' [i] (\<lambda>t. t\<lparr>effective_hours := h\<rparr>) (tasks d)\<rparr>)"

text \<open>Whether the chain of parents of a task ends after at most \<open>n\<close> steps.\<close>

fun reaches_root :: "nat \<Rightarrow> db \<Rightarrow> nat \<Rightarrow> bool" where
  "reaches_root 0 d i = (parent_of d i = None)"
| "reaches_root (Suc n) d i =
     (case parent_of d i of None \<Rightarrow> True | Some p \<Rightarrow> reaches_root n d p)"

text \<open>
  The descendants of a task down to a given depth (its sub-tasks, their sub-tasks, and so
  on, archived ones included), and whether the task has no descendant below that depth.
\<close>

fun descendants :: "nat \<Rightarrow> db \<Rightarrow> nat \<Rightarrow> task list" where
  "descendants 0 d i = []"
| "descendants (Suc n) d i =
     concat (map (\<lambda>c. c # descendants n d (task.id' c)) (child_ids False d i))"

fun depth_le :: "nat \<Rightarrow> db \<Rightarrow> nat \<Rightarrow> bool" where
  "depth_le 0 d i = (child_ids False d i = [])"
| "depth_le (Suc n) d i = list_all (\<lambda>c. depth_le n d (task.id' c)) (child_ids False d i)"

text \<open>Every stored \<^verbatim>\<open>subtask_effective_hours\<close> is the value the compute method gives.\<close>

definition settled :: "db \<Rightarrow> bool" where
  "settled d =
     list_all (\<lambda>t. subtask_effective_hours t = subtask_hours_sum d (task.id' t)) (tasks d)"

text \<open>Every stored value is the computed one, except possibly on the task \<open>X\<close>.\<close>

definition settled_except :: "db \<Rightarrow> nat option \<Rightarrow> bool" where
  "settled_except d X =
     (\<forall>t\<in>set (tasks d). Some (task.id' t) \<noteq> X \<longrightarrow>
        subtask_effective_hours t = subtask_hours_sum d (task.id' t))"

text \<open>Whether a result is a raised \<^verbatim>\<open>ValueError\<close>.\<close>

definition raises_ValueError :: "exn + 'a \<Rightarrow> bool" where
  "raises_ValueError r = (case r of Inl (ValueError t args) \<Rightarrow> True | _ \<Rightarrow> False)"

section \<open>Properties of the search translators\<close>

lemma py_percent_str [simp]: "py_percent t (PyStr s) = Inr (t, [PyStr s])"
  by simp

text \<open>
  Claim C7. Both boolean search translators raise exactly when the value is not a bool or
  the operator is neither \<^verbatim>\<open>=\<close> nor \<^verbatim>\<open>!=\<close>. Otherwise each returns the one-leaf domain
  \<^verbatim>\<open>[('id', op, (sql, ()))]\<close>, where \<^verbatim>\<open>op\<close> is \<^verbatim>\<open>inselect\<close> if and only if the search is
  \<^verbatim>\<open>= True\<close> or \<^verbatim>\<open>!= False\<close>, and \<^verbatim>\<open>not inselect\<close> otherwise; so \<^verbatim>\<open>= True\<close> and
  \<^verbatim>\<open>!= False\<close> translate to the same domain.
\<close>

theorem search_bool_translation:
  "(isl (search_is_internal_project operator value) =
      (\<not> is_bool value \<or> (operator \<noteq> ''='' \<and> operator \<noteq> ''!=''))) \<and>
   (isl (search_is_project_overtime operator value) =
      (\<not> is_bool value \<or> (operator \<noteq> ''='' \<and> operator \<noteq> ''!=''))) \<and>
   (is_bool value \<and> (operator = ''='' \<or> operator = ''!='') \<longrightarrow>
      search_is_internal_project operator value =
        Inr [(''id'',
              (if (operator = ''='' \<and> value = PyBool True) \<or>
                  (operator = ''!='' \<and> value = PyBool False)
               then ''inselect'' else ''not inselect''),
              (internal_project_query, []))] \<and>
      search_is_project_overtime operator value =
        Inr [(''id'',
              (if (operator = ''='' \<and> value = PyBool True) \<or>
                  (operator = ''!='' \<and> value = PyBool False)
               then ''inselect'' else ''not inselect''),
              (project_overtime_query, []))]) \<and>
   search_is_internal_project ''='' (PyBool True) =
     search_is_internal_project ''!='' (PyBool False) \<and>
   search_is_project_overtime ''='' (PyBool True) =
     search_is_project_overtime ''!='' (PyBool False)"
proof -
  have raises_internal: "isl (search_is_internal_project operator value) =
      (\<not> is_bool value \<or> (operator \<noteq> ''='' \<and> operator \<noteq> ''!=''))"
    by (simp add: search_is_internal_project_def Let_def)
  have raises_overtime: "isl (search_is_project_overtime operator value) =
      (\<not> is_bool value \<or> (operator \<noteq> ''='' \<and> operator \<noteq> ''!=''))"
    by (cases "value")
       (simp_all add: search_is_project_overtime_def Let_def split: sum.splits)
  have same_internal: "search_is_internal_project ''='' (PyBool True) =
      search_is_internal_project ''!='' (PyBool False)"
    by (simp add: search_is_internal_project_def)
  have same_overtime: "search_is_project_overtime ''='' (PyBool True) =
      search_is_project_overtime ''!='' (PyBool False)"
    by (simp add: search_is_project_overtime_def)
  show ?thesis
    unfolding raises_internal raises_overtime
    using same_internal same_overtime
    by (auto simp add: search_is_internal_project_def search_is_project_overtime_def Let_def)
qed

theorem search_bool_translation_witness:
  "is_bool (PyBool True) \<and>
   search_is_internal_project ''!='' (PyBool True) =
     Inr [(''id'', ''not inselect'', (internal_project_query, []))] \<and>
   search_is_project_overtime ''!='' (PyBool True) =
     Inr [(''id'', ''not inselect'', (project_overtime_query, []))]"
  using search_bool_translation [of "''!=''" "PyBool True"]
  by simp

text \<open>
  Claim C8, as the code has it. With an operator other than \<^verbatim>\<open>=\<close> and \<^verbatim>\<open>!=\<close>,
  \<^verbatim>\<open>_search_is_internal_project\<close> raises a \<^verbatim>\<open>ValueError\<close> for every value, and
  \<^verbatim>\<open>_search_is_project_overtime\<close> raises a \<^verbatim>\<open>ValueError\<close> for every value whose message
  can be formatted (the operator's message itself when the value is a bool).
  \<^verbatim>\<open>_search_remaining_hours_percentage\<close> raises a \<^verbatim>\<open>NotImplementedError\<close>, not a
  \<^verbatim>\<open>ValueError\<close>, for an operator outside \<^verbatim>\<open>OPERATOR_MAPPING\<close>.
\<close>

theorem search_operator_errors:
  "(operator \<noteq> ''='' \<and> operator \<noteq> ''!='' \<longrightarrow>
      raises_ValueError (search_is_internal_project operator value) \<and>
      (py_percent ''Invalid value: %s'' value \<noteq> Inl TypeError \<longrightarrow>
         raises_ValueError (search_is_project_overtime operator value)) \<and>
      (is_bool value \<longrightarrow>
         search_is_internal_project operator value =
           Inl (ValueError ''Invalid operator: %s'' [PyStr operator]) \<and>
         search_is_project_overtime operator value =
           Inl (ValueError ''Invalid operator: %s'' [PyStr operator]))) \<and>
   (operator \<notin> set OPERATOR_MAPPING \<longrightarrow>
      search_remaining_hours_percentage OPERATOR_MAPPING table operator value =
        Inl (NotImplementedError ''This operator %s is not supported in this search method.''
               [PyStr operator]))"
proof (intro conjI impI)
  assume bad: "operator \<noteq> ''='' \<and> operator \<noteq> ''!=''"
  show "raises_ValueError (search_is_internal_project operator value)"
    using bad by (simp add: search_is_internal_project_def raises_ValueError_def)
  show "raises_ValueError (search_is_project_overtime operator value)"
    if "py_percent ''Invalid value: %s'' value \<noteq> Inl TypeError"
    using bad that
    by (cases "value")
       (simp_all add: search_is_project_overtime_def raises_ValueError_def split: if_splits)
  show "search_is_internal_project operator value =
          Inl (ValueError ''Invalid operator: %s'' [PyStr operator])" if "is_bool value"
    using bad that by (simp add: search_is_internal_project_def)
  show "search_is_project_overtime operator value =
          Inl (ValueError ''Invalid operator: %s'' [PyStr operator])" if "is_bool value"
    using bad that by (simp add: search_is_project_overtime_def)
next
  assume "operator \<notin> set OPERATOR_MAPPING"
  then show "search_remaining_hours_percentage OPERATOR_MAPPING table operator value =
        Inl (NotImplementedError ''This operator %s is not supported in this search method.''
               [PyStr operator])"
    by (simp add: search_remaining_hours_percentage_def)
qed

theorem search_operator_errors_witness:
  "raises_ValueError (search_is_internal_project ''like'' (PyBool True)) \<and>
   raises_ValueError (search_is_project_overtime ''like'' (PyBool True)) \<and>
   search_is_project_overtime ''like'' (PyBool True) =
     Inl (ValueError ''Invalid operator: %s'' [PyStr ''like'']) \<and>
   ''like'' \<notin> set rating_OPERATOR_MAPPING \<and>
   search_remaining_hours_percentage rating_OPERATOR_MAPPING ''project_task'' ''like''
       (PyBool True) =
     Inl (NotImplementedError ''This operator %s is not supported in this search method.''
            [PyStr ''like''])"
  using search_operator_errors
          [of "''like''" "PyBool True" rating_OPERATOR_MAPPING "''project_task''"]
  by (simp add: rating_OPERATOR_MAPPING_def raises_ValueError_def)

text \<open>
  The claim as stated fails on the third search method: the operator \<^verbatim>\<open>like\<close> is not a
  key of \<^verbatim>\<open>OPERATOR_MAPPING\<close>, and the exception raised is not a \<^verbatim>\<open>ValueError\<close>.
\<close>

theorem search_operator_errors_counterexample:
  "search_remaining_hours_percentage rating_OPERATOR_MAPPING ''project_task'' ''like''
       (PyFloat (1 / 2)) =
     Inl (NotImplementedError ''This operator %s is not supported in this search method.''
            [PyStr ''like'']) \<and>
   \<not> raises_ValueError
       (search_remaining_hours_percentage rating_OPERATOR_MAPPING ''project_task'' ''like''
          (PyFloat (1 / 2)))"
  by (simp add: search_remaining_hours_percentage_def rating_OPERATOR_MAPPING_def
        raises_ValueError_def)

section \<open>Properties of the derived hours\<close>

lemma for_each_total:
  assumes "\<And>x. f x = Inr (g x)"
  shows "for_each f xs = Inr (map g xs)"
  by (induction xs) (simp_all add: assms)






text \<open>
  Claim C9. The derived ratios never divide by zero. For every task,
  \<^verbatim>\<open>_compute_remaining_hours_percentage\<close> returns normally and sets the percentage to
  \<^verbatim>\<open>remaining_hours / planned_hours\<close> when \<^verbatim>\<open>planned_hours > 0\<close> and to 0 otherwise, and
  \<^verbatim>\<open>_compute_progress_hours\<close> returns normally as well; so do both loops over any record
  set.
\<close>

theorem derived_ratios_total:
  "compute_remaining_hours_percentage_task t =
     Inr (t\<lparr>remaining_hours_percentage :=
               (if planned_hours t > 0 then remaining_hours t / planned_hours t else 0)\<rparr>) \<and>
   compute_remaining_hours_percentage self =
     Inr (map (\<lambda>t. t\<lparr>remaining_hours_percentage :=
               (if planned_hours t > 0 then remaining_hours t / planned_hours t else 0)\<rparr>) self) \<and>
   compute_progress_hours_task t \<noteq> Inl ZeroDivisionError \<and>
   (\<exists>tasks. compute_progress_hours self = Inr tasks \<and> length tasks = length self)"
proof -
  have one: "compute_remaining_hours_percentage_task u =
     Inr (u\<lparr>remaining_hours_percentage :=
               (if planned_hours u > 0 then remaining_hours u / planned_hours u else 0)\<rparr>)"
    for u
    by (simp add: compute_remaining_hours_percentage_task_def py_truediv_def)
  have all: "compute_remaining_hours_percentage self =
     Inr (map (\<lambda>t. t\<lparr>remaining_hours_percentage :=
               (if planned_hours t > 0 then remaining_hours t / planned_hours t else 0)\<rparr>) self)"
    unfolding compute_remaining_hours_percentage_def
    by (rule for_each_total) (rule one)
  have progress_one: "compute_progress_hours_task u = Inr (projr (compute_progress_hours_task u))"
    for u
    by (cases "planned_hours u > 0")
       (simp_all add: compute_progress_hours_task_def Let_def py_truediv_def)
  have progress_all: "compute_progress_hours self =
      Inr (map (\<lambda>u. projr (compute_progress_hours_task u)) self)"
    unfolding compute_progress_hours_def
    by (rule for_each_total) (rule progress_one)
  have "compute_progress_hours_task t \<noteq> Inl ZeroDivisionError"
    using progress_one [of t] by (metis Inl_Inr_False)
  with one all progress_all show ?thesis
    by simp
qed

section \<open>Properties of writing a task\<close>

lemma to_many2one_falsy: "\<not> truthy v \<Longrightarrow> to_many2one v = None"
  by (cases v) auto

lemma Task_get_timesheet_empty_iff:
  "(Task_get_timesheet self d = []) = (\<forall>t\<in>set self. task_timesheet_ids d t = [])"
  by (auto simp: Task_get_timesheet_def task_timesheet_ids_def filter_empty_conv split: option.splits)

lemma update_by_distinct_id:
  assumes "distinct (map f xs)"
  shows "update_records f (map f (filter P xs)) g xs = map (\<lambda>x. if P x then g x else x) xs"
proof -
  have "f x \<in> f ` {y \<in> set xs. P y} \<longleftrightarrow> P x" if "x \<in> set xs" for x
    using assms that by (auto simp: distinct_map inj_on_def)
  then show ?thesis
    by (simp add: update_records_def)
qed

text \<open>
  Claim C3. A write that sets \<^verbatim>\<open>project_id\<close> to a falsy value on a record set containing a
  task with a timesheet line raises the \<^verbatim>\<open>UserError\<close> before anything is written: the
  tables are unchanged, so the task keeps its project. When no task of the record set has
  a timesheet line, the same write returns normally and the tasks lose their project.
\<close>

theorem task_write_keeps_project:
  "values ''project_id'' = Some v \<and> \<not> truthy v \<longrightarrow>
     (t \<in> set self \<and> task_timesheet_ids d t \<noteq> [] \<longrightarrow>
        Task_write self values d =
          (Some (UserError
             ''This task must be part of a project because there are some timesheets linked to it.''),
           d)) \<and>
     (Task_get_timesheet self d = [] \<longrightarrow>
        Task_write self values d =
          (None, d\<lparr>tasks := update_records task.id' self
                              (\<lambda>t. t\<lparr>task.project_id := None\<rparr>) (tasks d)\<rparr>))"
proof (intro impI conjI)
  assume v: "values ''project_id'' = Some v \<and> \<not> truthy v"
  then have get: "py_get values ''project_id'' = v"
    by (simp add: py_get_def)
  show "Task_write self values d =
          (Some (UserError
             ''This task must be part of a project because there are some timesheets linked to it.''),
           d)"
    if "t \<in> set self \<and> task_timesheet_ids d t \<noteq> []"
  proof -
    from that have "Task_get_timesheet self d \<noteq> []"
      unfolding Task_get_timesheet_empty_iff by blast
    with v get show ?thesis
      by (simp add: Task_write_def)
  qed
  show "Task_write self values d =
          (None, d\<lparr>tasks := update_records task.id' self
                              (\<lambda>t. t\<lparr>task.project_id := None\<rparr>) (tasks d)\<rparr>)"
    if "Task_get_timesheet self d = []"
  proof -
    have assign: "assign_task values = (\<lambda>t. t\<lparr>task.project_id := None\<rparr>)"
      using v by (auto simp: assign_task_def fun_eq_iff to_many2one_falsy)
    show ?thesis
      using that v get
      by (simp add: Task_write_def orm_task_write_def assign to_many2one_falsy
            browse_allow_timesheets_def)
  qed
qed

theorem task_write_keeps_project_witness:
  "Task_write [1] [''project_id'' \<mapsto> PyBool False] example_db =
     (Some (UserError
        ''This task must be part of a project because there are some timesheets linked to it.''),
      example_db) \<and>
   Task_write [2] [''project_id'' \<mapsto> PyBool False] example_db =
     (None, example_db\<lparr>tasks :=
        [\<lparr>task.id' = 1, project_id = Some 1, parent_id = None, active = True,
          planned_hours = 8, effective_hours = 2, subtask_effective_hours = 3,
          remaining_hours = 3, remaining_hours_percentage = 0, progress = 0, overtime = 0\<rparr>,
         \<lparr>task.id' = 2, project_id = None, parent_id = Some 1, active = False,
          planned_hours = 0, effective_hours = 3, subtask_effective_hours = 0,
          remaining_hours = 0, remaining_hours_percentage = 0, progress = 0, overtime = 0\<rparr>]\<rparr>)"
  using task_write_keeps_project
          [of "[''project_id'' \<mapsto> PyBool False]" "PyBool False" 1 "[1]" example_db]
        task_write_keeps_project
          [of "[''project_id'' \<mapsto> PyBool False]" "PyBool False" 2 "[2]" example_db]
  by (simp add: example_db_def task_timesheet_ids_def Task_get_timesheet_def update_records_def)

text \<open>
  Claim C10. A write with a new \<^verbatim>\<open>project_id\<close> first updates the tasks; then, if the target
  project allows timesheets, every timesheet line of the tasks gets the new project, and
  if it does not, the lines are left as they were. The lines of other tasks are never
  touched. Timesheet lines are identified by their ids, which are distinct.
\<close>

theorem task_write_moves_timesheets:
  "values ''project_id'' = Some (PyInt (int p)) \<and> 0 < p \<and> find_project d p = Some pr \<and>
   distinct (map line.id' (lines d)) \<longrightarrow>
     Task_write self values d =
       (None,
        d\<lparr>tasks := update_records task.id' self (\<lambda>t. t\<lparr>task.project_id := Some p\<rparr>) (tasks d),
          lines := (if project.allow_timesheets pr then
                      map (\<lambda>l. if (case task_id l of None \<Rightarrow> False | Some t \<Rightarrow> t \<in> set self)
                                then l\<lparr>line.project_id := Some p\<rparr> else l) (lines d)
                    else lines d)\<rparr>)"
proof
  assume a: "values ''project_id'' = Some (PyInt (int p)) \<and> 0 < p \<and> find_project d p = Some pr \<and>
   distinct (map line.id' (lines d))"
  then have get: "py_get values ''project_id'' = PyInt (int p)"
    by (simp add: py_get_def)
  have ts: "Task_get_timesheet self (d\<lparr>tasks := new_tasks\<rparr>) = Task_get_timesheet self d"
    for new_tasks
    by (simp add: Task_get_timesheet_def)
  have fp: "find_project (d\<lparr>tasks := new_tasks\<rparr>) p = Some pr" for new_tasks
    using a by (simp add: find_project_def)
  have assign: "assign_task values = (\<lambda>t. t\<lparr>task.project_id := Some p\<rparr>)"
    using a by (auto simp: assign_task_def fun_eq_iff)
  have lw: "update_records line.id' (map line.id' (Task_get_timesheet self d))
              (assign_line [''project_id'' \<mapsto> PyInt (int p)]) (lines d) =
            map (\<lambda>l. if (case task_id l of None \<Rightarrow> False | Some t \<Rightarrow> t \<in> set self)
                                then l\<lparr>line.project_id := Some p\<rparr> else l) (lines d)"
    unfolding Task_get_timesheet_def
    using a by (subst update_by_distinct_id) (auto simp: assign_line_def)
  show "Task_write self values d =
       (None,
        d\<lparr>tasks := update_records task.id' self (\<lambda>t. t\<lparr>task.project_id := Some p\<rparr>) (tasks d),
          lines := (if project.allow_timesheets pr then
                      map (\<lambda>l. if (case task_id l of None \<Rightarrow> False | Some t \<Rightarrow> t \<in> set self)
                                then l\<lparr>line.project_id := Some p\<rparr> else l) (lines d)
                    else lines d)\<rparr>)"
    using a
    by (simp add: Task_write_def orm_task_write_def get ts browse_allow_timesheets_def fp
          orm_line_write_def lw assign)
qed

theorem task_write_moves_timesheets_witness:
  "Task_write [1] [''project_id'' \<mapsto> PyInt 2] example_db =
     (None, example_db\<lparr>tasks :=
        [\<lparr>task.id' = 1, project_id = Some 2, parent_id = None, active = True,
          planned_hours = 8, effective_hours = 2, subtask_effective_hours = 3,
          remaining_hours = 3, remaining_hours_percentage = 0, progress = 0, overtime = 0\<rparr>,
         \<lparr>task.id' = 2, project_id = Some 1, parent_id = Some 1, active = False,
          planned_hours = 0, effective_hours = 3, subtask_effective_hours = 0,
          remaining_hours = 0, remaining_hours_percentage = 0, progress = 0, overtime = 0\<rparr>],
        lines := [\<lparr>line.id' = 1, project_id = Some 2, task_id = Some 1, unit_amount = 2\<rparr>]\<rparr>) \<and>
   Task_write [1] [''project_id'' \<mapsto> PyInt 3] example_db =
     (None, example_db\<lparr>tasks :=
        [\<lparr>task.id' = 1, project_id = Some 3, parent_id = None, active = True,
          planned_hours = 8, effective_hours = 2, subtask_effective_hours = 3,
          remaining_hours = 3, remaining_hours_percentage = 0, progress = 0, overtime = 0\<rparr>,
         \<lparr>task.id' = 2, project_id = Some 1, parent_id = Some 1, active = False,
          planned_hours = 0, effective_hours = 3, subtask_effective_hours = 0,
          remaining_hours = 0, remaining_hours_percentage = 0, progress = 0, overtime = 0\<rparr>],
        lines := [\<lparr>line.id' = 1, project_id = Some 1, task_id = Some 1, unit_amount = 2\<rparr>]\<rparr>)"
  using task_write_moves_timesheets
          [of "[''project_id'' \<mapsto> PyInt 2]" 2 example_db
              "\<lparr>project.id' = 2, allow_timesheets = True, analytic_account_id = Some 2, allocated_hours = 0\<rparr>" "[1]"]
        task_write_moves_timesheets
          [of "[''project_id'' \<mapsto> PyInt 3]" 3 example_db
              "\<lparr>project.id' = 3, allow_timesheets = False, analytic_account_id = None, allocated_hours = 0\<rparr>" "[1]"]
  by (simp add: example_db_def find_project_def update_records_def)

section \<open>Properties of deleting projects and tasks\<close>

lemma set_read_group_task_ids:
  "set (read_group_task_ids self d) = {t \<in> set self. task_timesheet_ids d t \<noteq> []}"
  by (auto simp: read_group_task_ids_def Task_get_timesheet_def task_timesheet_ids_def
        filter_empty_conv split: option.splits)

text \<open>
  Claim C4. If some project (some task) of the record set has timesheet lines referencing
  it, deleting raises a \<^verbatim>\<open>RedirectWarning\<close> whose \<^verbatim>\<open>active_ids\<close> are exactly the records
  that have timesheet lines, and the tables are unchanged: nothing is deleted. If none
  has timesheet lines, the delete hook raises nothing.
\<close>

theorem unlink_blocked_by_timesheets:
  "((\<exists>p\<in>set self. project_timesheet_ids d p \<noteq> []) \<longrightarrow>
      (\<exists>msg. Project_unlink self d =
         (Some (RedirectWarning msg ''hr_timesheet.timesheet_action_project''
                  ''See timesheet entries''
                  (filter (\<lambda>p. project_timesheet_ids d p \<noteq> []) self)),
          d))) \<and>
   ((\<forall>p\<in>set self. project_timesheet_ids d p = []) \<longrightarrow>
      Project_unlink_except_contains_entries self d = Inr ()) \<and>
   ((\<exists>t\<in>set self. task_timesheet_ids d t \<noteq> []) \<longrightarrow>
      (\<exists>msg ids. Task_unlink self d =
         (Some (RedirectWarning msg ''hr_timesheet.timesheet_action_task''
                  ''See timesheet entries'' ids),
          d) \<and>
         set ids = {t \<in> set self. task_timesheet_ids d t \<noteq> []})) \<and>
   ((\<forall>t\<in>set self. task_timesheet_ids d t = []) \<longrightarrow>
      Task_unlink_except_contains_entries self d = Inr ())"
proof (intro conjI impI)
  assume "\<exists>p\<in>set self. project_timesheet_ids d p \<noteq> []"
  then have "filter (\<lambda>p. project_timesheet_ids d p \<noteq> []) self \<noteq> []"
    by (simp add: filter_empty_conv)
  then show "\<exists>msg. Project_unlink self d =
         (Some (RedirectWarning msg ''hr_timesheet.timesheet_action_project''
                  ''See timesheet entries''
                  (filter (\<lambda>p. project_timesheet_ids d p \<noteq> []) self)),
          d)"
    by (simp add: Project_unlink_def Project_unlink_except_contains_entries_def Let_def)
next
  assume "\<forall>p\<in>set self. project_timesheet_ids d p = []"
  then have "filter (\<lambda>p. project_timesheet_ids d p \<noteq> []) self = []"
    by (simp add: filter_empty_conv)
  then show "Project_unlink_except_contains_entries self d = Inr ()"
    by (simp add: Project_unlink_except_contains_entries_def)
next
  assume "\<exists>t\<in>set self. task_timesheet_ids d t \<noteq> []"
  then have "set (read_group_task_ids self d) \<noteq> {}"
    unfolding set_read_group_task_ids by blast
  then have ne: "read_group_task_ids self d \<noteq> []"
    by auto
  show "\<exists>msg ids. Task_unlink self d =
         (Some (RedirectWarning msg ''hr_timesheet.timesheet_action_task''
                  ''See timesheet entries'' ids),
          d) \<and>
         set ids = {t \<in> set self. task_timesheet_ids d t \<noteq> []}"
    using ne set_read_group_task_ids [of self d]
    by (simp add: Task_unlink_def Task_unlink_except_contains_entries_def Let_def)
next
  assume "\<forall>t\<in>set self. task_timesheet_ids d t = []"
  then have "set (read_group_task_ids self d) = {}"
    unfolding set_read_group_task_ids by blast
  then show "Task_unlink_except_contains_entries self d = Inr ()"
    by (simp add: Task_unlink_except_contains_entries_def)
qed

theorem unlink_blocked_by_timesheets_witness:
  "Project_unlink [1, 2] example_db =
     (Some (RedirectWarning
        ''This project has some timesheet entries referencing it. Before removing this project, you have to remove these timesheet entries.''
        ''hr_timesheet.timesheet_action_project'' ''See timesheet entries'' [1]),
      example_db) \<and>
   Project_unlink_except_contains_entries [2, 3] example_db = Inr () \<and>
   Task_unlink [1, 2] example_db =
     (Some (RedirectWarning
        ''This task has some timesheet entries referencing it. Before removing this task, you have to remove these timesheet entries.''
        ''hr_timesheet.timesheet_action_task'' ''See timesheet entries'' [1]),
      example_db) \<and>
   Task_unlink_except_contains_entries [2] example_db = Inr ()"
  using unlink_blocked_by_timesheets [of "[1, 2]" example_db]
        unlink_blocked_by_timesheets [of "[2, 3]" example_db]
        unlink_blocked_by_timesheets [of "[2]" example_db]
  by (simp add: example_db_def project_timesheet_ids_def task_timesheet_ids_def
        Project_unlink_def Task_unlink_def Project_unlink_except_contains_entries_def
        Task_unlink_except_contains_entries_def read_group_task_ids_def Task_get_timesheet_def)

section \<open>Properties of creating and writing a project\<close>

lemma check_allow_timesheet_eq:
  "check_allow_timesheet ps =
     (if list_all timesheets_need_account ps then Inr ()
      else Inl (ValidationError ''You cannot use timesheets without an analytic account.''))"
  by (induction ps) (auto simp: timesheets_need_account_def)

lemma fold_max_ge: "b \<le> fold max xs (b::nat)"
  by (induction xs arbitrary: b) (auto intro: order_trans [OF max.cobounded2])

lemma fold_max_upper: "x \<in> set xs \<Longrightarrow> x \<le> fold max xs (b::nat)"
proof (induction xs arbitrary: b)
  case Nil
  then show ?case by simp
next
  case (Cons y ys)
  show ?case
  proof (cases "x = y")
    case True
    have "y \<le> max y b" by simp
    also have "\<dots> \<le> fold max ys (max y b)" by (rule fold_max_ge)
    finally show ?thesis using True by simp
  next
    case False
    with Cons show ?thesis by simp
  qed
qed

lemma fresh_id_fresh: "fresh_id ids \<notin> set ids"
  using fold_max_upper [of "fresh_id ids" ids 0] by (auto simp: fresh_id_def)

lemma fresh_id_pos: "0 < fresh_id ids"
  by (simp add: fresh_id_def)

lemma update_records_all:
  assumes "list_all P rs" and "\<And>r. P r \<Longrightarrow> P (f r)"
  shows "list_all P (update_records ident self f rs)"
  using assms by (induction rs) (auto simp: update_records_def)

lemma create_analytic_account_invariant:
  "invariant d \<Longrightarrow> invariant (create_analytic_account i d)"
  unfolding invariant_def create_analytic_account_def Let_def
  by (simp, rule update_records_all) (auto simp: timesheets_need_account_def)

lemma write_provision_invariant:
  "invariant d \<Longrightarrow> invariant (write_provision self d)"
proof (induction self arbitrary: d)
  case Nil
  then show ?case by simp
next
  case (Cons i self)
  have "invariant (case find_project d i of
          None \<Rightarrow> d
        | Some p \<Rightarrow> if analytic_account_id p = None then create_analytic_account i d else d)"
    using Cons.prems by (auto split: option.splits intro: create_analytic_account_invariant)
  then show ?case
    using Cons.IH by simp
qed

lemma create_provision_projects_aux:
  "create_provision defaults vals_list d = (vl, d1) \<Longrightarrow> projects d1 = projects d"
proof (induction vals_list arbitrary: d vl d1)
  case Nil
  then show ?case by simp
next
  case (Cons v0 vals_list)
  show ?case
  proof (cases "truthy (py_get_default v0 ''allow_timesheets'' (py_get defaults ''allow_timesheets'')) \<and>
      \<not> truthy (py_get_default v0 ''analytic_account_id'' (py_get defaults ''analytic_account_id''))")
    case True
    obtain rest d2 where r: "create_provision defaults vals_list
        (d\<lparr>analytic_accounts := analytic_accounts d @ [fresh_id (analytic_accounts d)]\<rparr>) = (rest, d2)"
      by (cases "create_provision defaults vals_list
        (d\<lparr>analytic_accounts := analytic_accounts d @ [fresh_id (analytic_accounts d)]\<rparr>)")
    from Cons.IH [OF r] have "projects d2 = projects d" by simp
    moreover have "d1 = d2"
      using Cons.prems True r
      by (simp add: Let_def create_analytic_account_from_values_def)
    ultimately show ?thesis by simp
  next
    case False
    obtain rest d2 where r: "create_provision defaults vals_list d = (rest, d2)"
      by (cases "create_provision defaults vals_list d")
    from Cons.IH [OF r] have "projects d2 = projects d" .
    moreover have "d1 = d2"
      using Cons.prems False r by (auto simp: Let_def)
    ultimately show ?thesis by simp
  qed
qed

lemma create_provision_projects:
  "projects (snd (create_provision defaults vals_list d)) = projects d"
  using create_provision_projects_aux [of defaults vals_list d] by (metis prod.collapse)

lemma split_by_self:
  "list_all P rs = (list_all P (filter (\<lambda>r. ident r \<in> set self) rs) \<and>
                    list_all P (filter (\<lambda>r. ident r \<notin> set self) rs))"
  by (induction rs) auto

lemma update_records_outside:
  assumes "\<And>r. ident (f r) = ident r"
  shows "filter (\<lambda>r. ident r \<notin> set self) (update_records ident self f rs) =
         filter (\<lambda>r. ident r \<notin> set self) rs"
  using assms by (induction rs) (auto simp: update_records_def)

lemma assign_project_id [simp]: "project.id' (assign_project values p) = project.id' p"
  by (simp add: assign_project_def Let_def split: option.splits)

lemma compute_allow_timesheets_id [simp]:
  "project.id' (compute_allow_timesheets p) = project.id' p"
  by (simp add: compute_allow_timesheets_def)

lemma assign_project_no_fields:
  "values ''allow_timesheets'' = None \<Longrightarrow> values ''analytic_account_id'' = None \<Longrightarrow>
   assign_project values p = p"
  by (simp add: assign_project_def)

lemma update_records_ident: "(\<And>r. f r = r) \<Longrightarrow> update_records ident self f rs = rs"
  by (induction rs) (auto simp: update_records_def)

lemma orm_project_write_raises:
  assumes "invariant d" and "\<not> invariant (snd (orm_project_write self values d))"
  shows "fst (orm_project_write self values d) =
           Some (ValidationError ''You cannot use timesheets without an analytic account.'')"
proof (cases "values ''allow_timesheets'' \<noteq> None \<or> values ''analytic_account_id'' \<noteq> None")
  case False
  then have "snd (orm_project_write self values d) = d"
    by (simp add: orm_project_write_def assign_project_no_fields update_records_ident)
  with assms show ?thesis by simp
next
  case True
  define ps1 where "ps1 = update_records project.id' self (assign_project values) (projects d)"
  define ps2 where "ps2 = (if values ''analytic_account_id'' \<noteq> None \<and> values ''allow_timesheets'' = None
                 then update_records project.id' self compute_allow_timesheets ps1
                 else ps1)"
  have out1: "filter (\<lambda>p. project.id' p \<notin> set self) ps1 =
              filter (\<lambda>p. project.id' p \<notin> set self) (projects d)"
    unfolding ps1_def by (rule update_records_outside) simp
  have out2: "filter (\<lambda>p. project.id' p \<notin> set self) ps2 =
              filter (\<lambda>p. project.id' p \<notin> set self) ps1"
    unfolding ps2_def by (simp add: update_records_outside)
  have outside: "list_all timesheets_need_account (filter (\<lambda>p. project.id' p \<notin> set self) ps2)"
    using assms(1) split_by_self [of timesheets_need_account "projects d" project.id' self]
    by (simp add: out1 out2 invariant_def)
  have snd_eq: "projects (snd (orm_project_write self values d)) = ps2"
    using True by (auto simp: orm_project_write_def Let_def ps1_def ps2_def split: sum.splits)
  have "\<not> list_all timesheets_need_account ps2"
    using assms(2) by (simp add: invariant_def snd_eq)
  with outside have "\<not> list_all timesheets_need_account (filter (\<lambda>p. project.id' p \<in> set self) ps2)"
    using split_by_self [of timesheets_need_account ps2 project.id' self] by simp
  moreover have "orm_project_write self values d =
      (case check_allow_timesheet (filter (\<lambda>p. project.id' p \<in> set self) ps2) of
         Inl e \<Rightarrow> (Some e, d\<lparr>projects := ps2\<rparr>)
       | Inr u \<Rightarrow> (None, d\<lparr>projects := ps2\<rparr>))"
    unfolding orm_project_write_def Let_def ps1_def ps2_def
    by (simp only: True if_True)
  ultimately show ?thesis
    by (simp add: check_allow_timesheet_eq)
qed

lemma orm_project_create_raises:
  assumes "invariant d" and "\<not> invariant (snd (orm_project_create defaults vals_list d))"
  shows "fst (orm_project_create defaults vals_list d) =
           Some (ValidationError ''You cannot use timesheets without an analytic account.'')"
proof -
  define created where "created = new_projects defaults vals_list (map project.id' (projects d))"
  have "projects (snd (orm_project_create defaults vals_list d)) = projects d @ created"
    by (simp add: orm_project_create_def Let_def created_def split: sum.splits)
  with assms have "\<not> list_all timesheets_need_account created"
    by (simp add: invariant_def)
  then show ?thesis
    by (simp add: orm_project_create_def Let_def check_allow_timesheet_eq created_def [symmetric])
qed

text \<open>
  Claim C1. The validation check raises a \<^verbatim>\<open>ValidationError\<close> exactly when some project of
  the record set allows timesheets and has no analytic account. Starting from tables in
  which every project that allows timesheets has an analytic account, a write or a create
  whose resulting tables break this raises the \<^verbatim>\<open>ValidationError\<close>; hence the state that
  persists after any write or create satisfies the invariant again.
\<close>

theorem project_invariant:
  "check_allow_timesheet ps =
     (if list_ex (\<lambda>p. project.allow_timesheets p \<and> analytic_account_id p = None) ps
      then Inl (ValidationError ''You cannot use timesheets without an analytic account.'')
      else Inr ()) \<and>
   (invariant d \<longrightarrow>
      (\<not> invariant (snd (Project_write self values d)) \<longrightarrow>
         fst (Project_write self values d) =
           Some (ValidationError ''You cannot use timesheets without an analytic account.'')) \<and>
      (\<not> invariant (snd (Project_create defaults vals_list d)) \<longrightarrow>
         fst (Project_create defaults vals_list d) =
           Some (ValidationError ''You cannot use timesheets without an analytic account.'')) \<and>
      invariant (persisted d (Project_write self values d)) \<and>
      invariant (persisted d (Project_create defaults vals_list d)))"
proof (intro conjI impI)
  show "check_allow_timesheet ps =
     (if list_ex (\<lambda>p. project.allow_timesheets p \<and> analytic_account_id p = None) ps
      then Inl (ValidationError ''You cannot use timesheets without an analytic account.'')
      else Inr ())"
    by (induction ps) auto
next
  assume inv: "invariant d"
  define d1 where "d1 = (if truthy (py_get values ''allow_timesheets'') \<and>
                   \<not> truthy (py_get values ''analytic_account_id'')
                then write_provision self d else d)"
  have inv1: "invariant d1"
    using inv by (simp add: d1_def write_provision_invariant)
  have w: "Project_write self values d = orm_project_write self values d1"
    by (simp add: Project_write_def d1_def)
  show write_raises: "fst (Project_write self values d) =
           Some (ValidationError ''You cannot use timesheets without an analytic account.'')"
    if "\<not> invariant (snd (Project_write self values d))"
    using that inv1 unfolding w by (rule_tac orm_project_write_raises)
  define d2 where "d2 = snd (create_provision defaults vals_list d)"
  have inv2: "invariant d2"
    using inv by (simp add: d2_def invariant_def create_provision_projects)
  have c: "Project_create defaults vals_list d =
             orm_project_create defaults (fst (create_provision defaults vals_list d)) d2"
    by (simp add: Project_create_def d2_def split: prod.splits)
  show create_raises: "fst (Project_create defaults vals_list d) =
           Some (ValidationError ''You cannot use timesheets without an analytic account.'')"
    if "\<not> invariant (snd (Project_create defaults vals_list d))"
    using that inv2 unfolding c by (rule_tac orm_project_create_raises)
  show "invariant (persisted d (Project_write self values d))"
    using inv write_raises
    by (cases "Project_write self values d") (auto simp: persisted_def split: option.splits)
  show "invariant (persisted d (Project_create defaults vals_list d))"
    using inv create_raises
    by (cases "Project_create defaults vals_list d") (auto simp: persisted_def split: option.splits)
qed

theorem project_invariant_witness:
  "invariant example_db \<and>
   \<not> invariant (snd (Project_write [3]
        [''allow_timesheets'' \<mapsto> PyBool True, ''analytic_account_id'' \<mapsto> PyBool False]
        example_db)) \<and>
   fst (Project_write [3]
        [''allow_timesheets'' \<mapsto> PyBool True, ''analytic_account_id'' \<mapsto> PyBool False]
        example_db) =
     Some (ValidationError ''You cannot use timesheets without an analytic account.'') \<and>
   persisted example_db (Project_write [3]
        [''allow_timesheets'' \<mapsto> PyBool True, ''analytic_account_id'' \<mapsto> PyBool False]
        example_db) = example_db \<and>
   invariant (persisted example_db
     (Project_create [''allow_timesheets'' \<mapsto> PyBool True] [Map.empty] example_db))"
proof -
  have inv: "invariant example_db"
    by (simp add: invariant_def example_db_def timesheets_need_account_def)
  have bad: "\<not> invariant (snd (Project_write [3]
        [''allow_timesheets'' \<mapsto> PyBool True, ''analytic_account_id'' \<mapsto> PyBool False]
        example_db))"
    by (simp add: invariant_def example_db_def timesheets_need_account_def Project_write_def
          py_get_def find_project_def create_analytic_account_def fresh_id_def
          update_records_def orm_project_write_def assign_project_def Let_def)
  from project_invariant
         [of "[]" example_db "[3]"
             "[''allow_timesheets'' \<mapsto> PyBool True, ''analytic_account_id'' \<mapsto> PyBool False]"
             "[''allow_timesheets'' \<mapsto> PyBool True]" "[Map.empty]"]
       inv bad
  show ?thesis
    by (cases "Project_write [3]
        [''allow_timesheets'' \<mapsto> PyBool True, ''analytic_account_id'' \<mapsto> PyBool False]
        example_db") (simp add: persisted_def)
qed

lemma find_update_records:
  assumes "\<And>r. ident (f r) = ident r"
  shows "find (\<lambda>r. ident r = i) (update_records ident self f rs) =
         map_option (\<lambda>r. if i \<in> set self then f r else r) (find (\<lambda>r. ident r = i) rs)"
  using assms by (induction rs) (auto simp: update_records_def)

lemma find_project_create_analytic_account:
  "find_project (create_analytic_account j d) i =
     map_option (\<lambda>p. if i = j then p\<lparr>analytic_account_id := Some (fresh_id (analytic_accounts d))\<rparr> else p)
       (find_project d i)"
  unfolding find_project_def create_analytic_account_def Let_def
  by (simp add: find_update_records)

lemma accounts_create_analytic_account:
  "analytic_accounts (create_analytic_account j d) =
     analytic_accounts d @ [fresh_id (analytic_accounts d)]"
  by (simp add: create_analytic_account_def Let_def)

text \<open>One round of the loop of \<open>write_provision\<close>.\<close>

lemma write_provision_accounts_mono:
  "set (analytic_accounts d) \<subseteq> set (analytic_accounts (write_provision self d))"
proof (induction self arbitrary: d)
  case Nil
  then show ?case by simp
next
  case (Cons j self)
  let ?d1 = "case find_project d j of
          None \<Rightarrow> d
        | Some p \<Rightarrow> if analytic_account_id p = None then create_analytic_account j d else d"
  have "set (analytic_accounts d) \<subseteq> set (analytic_accounts ?d1)"
    by (auto simp: accounts_create_analytic_account split: option.splits)
  also have "\<dots> \<subseteq> set (analytic_accounts (write_provision self ?d1))"
    by (rule Cons.IH)
  finally show ?case by simp
qed

lemma write_provision_keeps_account:
  "find_project d i = Some p \<Longrightarrow> analytic_account_id p \<noteq> None \<Longrightarrow>
   find_project (write_provision self d) i = Some p"
proof (induction self arbitrary: d)
  case Nil
  then show ?case by simp
next
  case (Cons j self)
  let ?d1 = "case find_project d j of
          None \<Rightarrow> d
        | Some p \<Rightarrow> if analytic_account_id p = None then create_analytic_account j d else d"
  have "find_project ?d1 i = Some p"
    using Cons.prems
    by (auto simp: find_project_create_analytic_account split: option.splits)
  then show ?case
    using Cons.IH [of ?d1] Cons.prems(2) by simp
qed

lemma write_provision_outside:
  "i \<notin> set self \<Longrightarrow> find_project (write_provision self d) i = find_project d i"
proof (induction self arbitrary: d)
  case Nil
  then show ?case by simp
next
  case (Cons j self)
  let ?d1 = "case find_project d j of
          None \<Rightarrow> d
        | Some p \<Rightarrow> if analytic_account_id p = None then create_analytic_account j d else d"
  have "find_project ?d1 i = find_project d i"
    using Cons.prems
    by (auto simp: find_project_create_analytic_account option.map_ident split: option.splits)
  then show ?case
    using Cons.IH [of ?d1] Cons.prems by simp
qed

lemma write_provision_links:
  assumes "i \<in> set self" and "find_project d i = Some p" and "analytic_account_id p = None"
  shows "\<exists>a. find_project (write_provision self d) i = Some (p\<lparr>analytic_account_id := Some a\<rparr>) \<and>
             a \<notin> set (analytic_accounts d) \<and>
             a \<in> set (analytic_accounts (write_provision self d))"
  using assms
proof (induction self arbitrary: d)
  case Nil
  then show ?case by simp
next
  case (Cons j self)
  let ?d1 = "case find_project d j of
          None \<Rightarrow> d
        | Some p \<Rightarrow> if analytic_account_id p = None then create_analytic_account j d else d"
  have wp: "write_provision (j # self) d = write_provision self ?d1"
    by simp
  show ?case
  proof (cases "i = j")
    case True
    let ?a = "fresh_id (analytic_accounts d)"
    have d1: "?d1 = create_analytic_account j d"
      using True Cons.prems by simp
    have found: "find_project ?d1 i = Some (p\<lparr>analytic_account_id := Some ?a\<rparr>)"
      using True Cons.prems by (simp add: find_project_create_analytic_account)
    have "find_project (write_provision self ?d1) i = Some (p\<lparr>analytic_account_id := Some ?a\<rparr>)"
      by (rule write_provision_keeps_account [OF found]) simp
    moreover have "?a \<notin> set (analytic_accounts d)"
      by (rule fresh_id_fresh)
    moreover have "?a \<in> set (analytic_accounts ?d1)"
      unfolding d1 by (simp add: accounts_create_analytic_account)
    then have "?a \<in> set (analytic_accounts (write_provision self ?d1))"
      using write_provision_accounts_mono by blast
    ultimately show ?thesis
      unfolding wp by blast
  next
    case False
    then have mem: "i \<in> set self"
      using Cons.prems by simp
    have found: "find_project ?d1 i = Some p"
      using False Cons.prems
      by (auto simp: find_project_create_analytic_account split: option.splits)
    from Cons.IH [OF mem found Cons.prems(3)]
    obtain a where a: "find_project (write_provision self ?d1) i = Some (p\<lparr>analytic_account_id := Some a\<rparr>)"
      "a \<notin> set (analytic_accounts ?d1)" "a \<in> set (analytic_accounts (write_provision self ?d1))"
      by blast
    have "set (analytic_accounts d) \<subseteq> set (analytic_accounts ?d1)"
      by (auto simp: accounts_create_analytic_account split: option.splits)
    with a(2) have "a \<notin> set (analytic_accounts d)"
      by blast
    with a(1,3) show ?thesis
      unfolding wp by blast
  qed
qed

lemma write_provision_ids:
  "map project.id' (projects (write_provision self d)) = map project.id' (projects d)"
proof (induction self arbitrary: d)
  case Nil
  then show ?case by simp
next
  case (Cons j self)
  have step: "map project.id' (projects (create_analytic_account j d)) = map project.id' (projects d)"
    by (simp add: create_analytic_account_def Let_def update_records_def comp_def)
  show ?case
    by (simp add: Cons.IH step split: option.splits)
qed

lemma find_distinct:
  "distinct (map f xs) \<Longrightarrow> x \<in> set xs \<Longrightarrow> find (\<lambda>r. f r = f x) xs = Some x"
  by (induction xs) (auto simp: image_iff)

lemma find_present: "i \<in> f ` set xs \<Longrightarrow> \<exists>x. find (\<lambda>r. f r = i) xs = Some x"
  by (induction xs) auto

lemma write_provision_all_linked:
  assumes dist: "distinct (map project.id' (projects d))"
      and p: "p \<in> set (projects (write_provision self d))"
      and mem: "project.id' p \<in> set self"
  shows "analytic_account_id p \<noteq> None"
proof -
  let ?d1 = "write_provision self d"
  let ?i = "project.id' p"
  have "distinct (map project.id' (projects ?d1))"
    using dist by (simp add: write_provision_ids)
  then have found1: "find_project ?d1 ?i = Some p"
    unfolding find_project_def using p by (rule find_distinct)
  have "?i \<in> set (map project.id' (projects ?d1))"
    using p by simp
  then have "?i \<in> project.id' ` set (projects d)"
    by (simp add: write_provision_ids)
  then obtain p0 where found0: "find_project d ?i = Some p0"
    unfolding find_project_def using find_present by fastforce
  show ?thesis
  proof (cases "analytic_account_id p0 = None")
    case True
    from write_provision_links [OF mem found0 True] found1 show ?thesis
      by auto
  next
    case False
    from write_provision_keeps_account [OF found0 False, of self] found1 False show ?thesis
      by simp
  qed
qed

lemma assign_project_account:
  "values ''analytic_account_id'' = None \<Longrightarrow>
   analytic_account_id (assign_project values p) = analytic_account_id p"
  by (simp add: assign_project_def Let_def split: option.splits)

lemma assign_project_allow:
  "values ''allow_timesheets'' = Some v \<Longrightarrow>
   project.allow_timesheets (assign_project values p) = truthy v"
  by (simp add: assign_project_def Let_def split: option.splits)

lemma truthy_get_present: "truthy (py_get values k) \<Longrightarrow> \<exists>v. values k = Some v \<and> truthy v"
  by (cases "values k") (simp_all add: py_get_def)

lemma write_after_provision:
  assumes allow: "truthy (py_get values ''allow_timesheets'')"
      and absent: "values ''analytic_account_id'' = None"
      and dist: "distinct (map project.id' (projects d))"
  shows "fst (orm_project_write self values (write_provision self d)) = None"
    and "\<forall>p\<in>set (projects (snd (orm_project_write self values (write_provision self d)))).
           project.id' p \<in> set self \<longrightarrow>
           project.allow_timesheets p \<and> analytic_account_id p \<noteq> None"
proof -
  let ?d1 = "write_provision self d"
  let ?ps1 = "update_records project.id' self (assign_project values) (projects ?d1)"
  from truthy_get_present [OF allow] obtain v
    where v: "values ''allow_timesheets'' = Some v" "truthy v" by blast
  have linked: "project.allow_timesheets q \<and> analytic_account_id q \<noteq> None"
    if "q \<in> set ?ps1" "project.id' q \<in> set self" for q
  proof -
    from that obtain p where p: "p \<in> set (projects ?d1)" "q = assign_project values p"
      "project.id' p \<in> set self"
      by (auto simp: update_records_def split: if_splits)
    from write_provision_all_linked [OF dist p(1) p(3)]
    show ?thesis
      using absent v by (simp add: p(2) assign_project_account assign_project_allow)
  qed
  then have ok: "list_all timesheets_need_account (filter (\<lambda>p. project.id' p \<in> set self) ?ps1)"
    by (auto simp: list_all_iff timesheets_need_account_def)
  have eq: "orm_project_write self values ?d1 = (None, ?d1\<lparr>projects := ?ps1\<rparr>)"
    using ok by (simp add: orm_project_write_def Let_def absent v(1) check_allow_timesheet_eq)
  show "fst (orm_project_write self values ?d1) = None"
    by (simp add: eq)
  show "\<forall>p\<in>set (projects (snd (orm_project_write self values ?d1))).
           project.id' p \<in> set self \<longrightarrow>
           project.allow_timesheets p \<and> analytic_account_id p \<noteq> None"
    using linked by (simp add: eq)
qed

lemma create_provision_Cons:
  "create_provision defaults (vs # vals_list) d =
     (if needs_account defaults vs then
        (vs(''analytic_account_id'' \<mapsto> PyInt (int (fresh_id (analytic_accounts d)))) #
           fst (create_provision defaults vals_list
                  (d\<lparr>analytic_accounts := analytic_accounts d @ [fresh_id (analytic_accounts d)]\<rparr>)),
         snd (create_provision defaults vals_list
                  (d\<lparr>analytic_accounts := analytic_accounts d @ [fresh_id (analytic_accounts d)]\<rparr>)))
      else (vs # fst (create_provision defaults vals_list d),
            snd (create_provision defaults vals_list d)))"
  by (simp add: needs_account_def Let_def create_analytic_account_from_values_def
        split: prod.splits)

lemma create_provision_length:
  "length (fst (create_provision defaults vals_list d)) = length vals_list"
  by (induction vals_list arbitrary: d) (simp_all add: create_provision_Cons del: create_provision.simps(2))

lemma create_provision_accounts_mono:
  "set (analytic_accounts d) \<subseteq> set (analytic_accounts (snd (create_provision defaults vals_list d)))"
proof (induction vals_list arbitrary: d)
  case Nil
  then show ?case by simp
next
  case (Cons vs vals_list)
  show ?case
    using Cons.IH [of d]
      Cons.IH [of "d\<lparr>analytic_accounts := analytic_accounts d @ [fresh_id (analytic_accounts d)]\<rparr>"]
    by (auto simp: create_provision_Cons simp del: create_provision.simps(2))
qed

lemma create_provision_nth:
  assumes "i < length vals_list"
  shows "if needs_account defaults (vals_list ! i) then
           (\<exists>a. fst (create_provision defaults vals_list d) ! i =
                   (vals_list ! i)(''analytic_account_id'' \<mapsto> PyInt (int a)) \<and>
                 0 < a \<and> a \<notin> set (analytic_accounts d) \<and>
                 a \<in> set (analytic_accounts (snd (create_provision defaults vals_list d))))
         else fst (create_provision defaults vals_list d) ! i = vals_list ! i"
  using assms
proof (induction vals_list arbitrary: d i)
  case Nil
  then show ?case by simp
next
  case (Cons vs vals_list)
  let ?a = "fresh_id (analytic_accounts d)"
  let ?d1 = "d\<lparr>analytic_accounts := analytic_accounts d @ [?a]\<rparr>"
  show ?case
  proof (cases i)
    case 0
    have "?a \<in> set (analytic_accounts ?d1)" by simp
    then have "?a \<in> set (analytic_accounts (snd (create_provision defaults vals_list ?d1)))"
      using create_provision_accounts_mono by blast
    then show ?thesis
      using 0 fresh_id_fresh [of "analytic_accounts d"] fresh_id_pos [of "analytic_accounts d"]
      by (auto simp: create_provision_Cons simp del: create_provision.simps(2))
  next
    case (Suc k)
    then have k: "k < length vals_list"
      using Cons.prems by simp
    show ?thesis
    proof (cases "needs_account defaults vs")
      case True
      have sub: "set (analytic_accounts d) \<subseteq> set (analytic_accounts ?d1)"
        by auto
      from Cons.IH [OF k, of ?d1] sub show ?thesis
        using Suc True
        by (auto simp: create_provision_Cons simp del: create_provision.simps(2) split: if_splits)
    next
      case False
      from Cons.IH [OF k, of d] show ?thesis
        using Suc False
        by (auto simp: create_provision_Cons simp del: create_provision.simps(2) split: if_splits)
    qed
  qed
qed

lemma new_projects_length: "length (new_projects defaults vl ids) = length vl"
  by (induction vl arbitrary: ids) simp_all

lemma new_projects_nth:
  "i < length vl \<Longrightarrow> \<exists>j. new_projects defaults vl ids ! i = new_project defaults (vl ! i) j"
proof (induction vl arbitrary: ids i)
  case Nil
  then show ?case by simp
next
  case (Cons vs vl)
  then show ?case
    by (cases i) auto
qed

lemma orm_project_create_snd:
  "snd (orm_project_create defaults vl d) =
     d\<lparr>projects := projects d @ new_projects defaults vl (map project.id' (projects d))\<rparr>"
  by (simp add: orm_project_create_def Let_def split: sum.splits)

lemma Project_create_eq:
  "Project_create defaults vals_list d =
     orm_project_create defaults (fst (create_provision defaults vals_list d))
       (snd (create_provision defaults vals_list d))"
  by (simp add: Project_create_def split: prod.splits)

lemma create_links:
  assumes i: "i < length vals_list"
      and need: "needs_account defaults (vals_list ! i)"
  shows "\<exists>a. fst (create_provision defaults vals_list d) ! i =
               (vals_list ! i)(''analytic_account_id'' \<mapsto> PyInt (int a)) \<and>
             a \<notin> set (analytic_accounts d) \<and>
             a \<in> set (analytic_accounts (snd (Project_create defaults vals_list d))) \<and>
             analytic_account_id
               (drop (length (projects d))
                  (projects (snd (Project_create defaults vals_list d))) ! i) = Some a \<and>
             project.allow_timesheets
               (drop (length (projects d))
                  (projects (snd (Project_create defaults vals_list d))) ! i)"
proof -
  let ?vl = "fst (create_provision defaults vals_list d)"
  let ?d1 = "snd (create_provision defaults vals_list d)"
  from create_provision_nth [OF i, of defaults d] need
  obtain a where a: "?vl ! i = (vals_list ! i)(''analytic_account_id'' \<mapsto> PyInt (int a))"
    "0 < a" "a \<notin> set (analytic_accounts d)" "a \<in> set (analytic_accounts ?d1)"
    by auto
  have len: "i < length ?vl"
    using i by (simp add: create_provision_length)
  have created: "drop (length (projects d)) (projects (snd (Project_create defaults vals_list d))) =
      new_projects defaults ?vl (map project.id' (projects d))"
    by (simp add: Project_create_eq orm_project_create_snd create_provision_projects)
  from new_projects_nth [OF len, of defaults "map project.id' (projects d)"]
  obtain j where j: "new_projects defaults ?vl (map project.id' (projects d)) ! i =
      new_project defaults (?vl ! i) j"
    by blast
  have acc: "analytic_account_id (new_project defaults (?vl ! i) j) = Some a"
    using a(2) by (simp add: a(1) new_project_def py_get_default_def)
  have allow: "project.allow_timesheets (new_project defaults (?vl ! i) j)"
    using need by (simp add: a(1) new_project_def py_get_default_def needs_account_def)
  have accs: "analytic_accounts (snd (Project_create defaults vals_list d)) = analytic_accounts ?d1"
    by (simp add: Project_create_eq orm_project_create_snd)
  show ?thesis
    using a(1,3,4) acc allow by (auto simp: created j accs)
qed

text \<open>
  Claim C2. In a create, every dictionary of \<^verbatim>\<open>vals_list\<close> for which timesheets are enabled
  (in the dictionary, or else by default) and no analytic account is supplied (in the
  dictionary, or else by default) gets the id of a newly created analytic account before
  the framework stores the records, and the stored project is linked to that account.
  In a write that sets \<^verbatim>\<open>allow_timesheets\<close> to true and supplies no analytic account,
  every project of the record set that lacks an analytic account is linked to a newly
  created one before the framework writes, and a project that has one keeps it; when the
  dictionary has no \<^verbatim>\<open>analytic_account_id\<close> at all (and ids are distinct), the write returns
  normally with every project of the record set allowing timesheets on an account.
\<close>

theorem analytic_account_provisioned:
  "(i < length vals_list \<and>
    truthy (py_get_default (vals_list ! i) ''allow_timesheets''
              (py_get defaults ''allow_timesheets'')) \<and>
    \<not> truthy (py_get_default (vals_list ! i) ''analytic_account_id''
                (py_get defaults ''analytic_account_id'')) \<longrightarrow>
      (\<exists>a. fst (create_provision defaults vals_list d) ! i =
              (vals_list ! i)(''analytic_account_id'' \<mapsto> PyInt (int a)) \<and>
            a \<notin> set (analytic_accounts d) \<and>
            a \<in> set (analytic_accounts (snd (Project_create defaults vals_list d))) \<and>
            analytic_account_id
              (drop (length (projects d))
                 (projects (snd (Project_create defaults vals_list d))) ! i) = Some a \<and>
            project.allow_timesheets
              (drop (length (projects d))
                 (projects (snd (Project_create defaults vals_list d))) ! i))) \<and>
   Project_create defaults vals_list d =
     orm_project_create defaults (fst (create_provision defaults vals_list d))
       (snd (create_provision defaults vals_list d)) \<and>
   (truthy (py_get values ''allow_timesheets'') \<and>
    \<not> truthy (py_get values ''analytic_account_id'') \<longrightarrow>
      Project_write self values d = orm_project_write self values (write_provision self d) \<and>
      (j \<in> set self \<and> find_project d j = Some p \<longrightarrow>
         (if analytic_account_id p = None then
            (\<exists>a. find_project (write_provision self d) j =
                    Some (p\<lparr>analytic_account_id := Some a\<rparr>) \<and>
                  a \<notin> set (analytic_accounts d) \<and>
                  a \<in> set (analytic_accounts (write_provision self d)))
          else find_project (write_provision self d) j = Some p)) \<and>
      (values ''analytic_account_id'' = None \<and> distinct (map project.id' (projects d)) \<longrightarrow>
         fst (Project_write self values d) = None \<and>
         (\<forall>q\<in>set (projects (snd (Project_write self values d))).
            project.id' q \<in> set self \<longrightarrow>
            project.allow_timesheets q \<and> analytic_account_id q \<noteq> None)))"
proof (intro conjI impI)
  assume "i < length vals_list \<and>
    truthy (py_get_default (vals_list ! i) ''allow_timesheets''
              (py_get defaults ''allow_timesheets'')) \<and>
    \<not> truthy (py_get_default (vals_list ! i) ''analytic_account_id''
                (py_get defaults ''analytic_account_id''))"
  then have "i < length vals_list" and "needs_account defaults (vals_list ! i)"
    by (simp_all add: needs_account_def)
  then show "\<exists>a. fst (create_provision defaults vals_list d) ! i =
              (vals_list ! i)(''analytic_account_id'' \<mapsto> PyInt (int a)) \<and>
            a \<notin> set (analytic_accounts d) \<and>
            a \<in> set (analytic_accounts (snd (Project_create defaults vals_list d))) \<and>
            analytic_account_id
              (drop (length (projects d))
                 (projects (snd (Project_create defaults vals_list d))) ! i) = Some a \<and>
            project.allow_timesheets
              (drop (length (projects d))
                 (projects (snd (Project_create defaults vals_list d))) ! i)"
    by (rule create_links)
next
  show "Project_create defaults vals_list d =
     orm_project_create defaults (fst (create_provision defaults vals_list d))
       (snd (create_provision defaults vals_list d))"
    by (rule Project_create_eq)
next
  assume c: "truthy (py_get values ''allow_timesheets'') \<and>
    \<not> truthy (py_get values ''analytic_account_id'')"
  then show w: "Project_write self values d = orm_project_write self values (write_provision self d)"
    by (simp add: Project_write_def)
  show "if analytic_account_id p = None then
            (\<exists>a. find_project (write_provision self d) j =
                    Some (p\<lparr>analytic_account_id := Some a\<rparr>) \<and>
                  a \<notin> set (analytic_accounts d) \<and>
                  a \<in> set (analytic_accounts (write_provision self d)))
          else find_project (write_provision self d) j = Some p"
    if "j \<in> set self \<and> find_project d j = Some p"
    using that write_provision_links [of j self d p] write_provision_keeps_account [of d j p self]
    by (simp split: if_splits)
  assume k: "values ''analytic_account_id'' = None \<and> distinct (map project.id' (projects d))"
  from c k show "fst (Project_write self values d) = None"
    unfolding w by (simp add: write_after_provision(1))
  from c k show "\<forall>q\<in>set (projects (snd (Project_write self values d))).
            project.id' q \<in> set self \<longrightarrow>
            project.allow_timesheets q \<and> analytic_account_id q \<noteq> None"
    unfolding w by (intro write_after_provision(2)) simp_all
qed

theorem analytic_account_provisioned_witness:
  "fst (create_provision [''allow_timesheets'' \<mapsto> PyBool True] [Map.empty] example_db) ! 0 =
     [''analytic_account_id'' \<mapsto> PyInt 3] \<and>
   3 \<notin> set (analytic_accounts example_db) \<and>
   projects (snd (Project_create [''allow_timesheets'' \<mapsto> PyBool True] [Map.empty] example_db)) =
     projects example_db @
     [\<lparr>project.id' = 4, allow_timesheets = True, analytic_account_id = Some 3,
       allocated_hours = 0\<rparr>] \<and>
   Project_write [3] [''allow_timesheets'' \<mapsto> PyBool True] example_db =
     (None,
      example_db\<lparr>projects :=
        [\<lparr>project.id' = 1, allow_timesheets = True, analytic_account_id = Some 1, allocated_hours = 0\<rparr>,
         \<lparr>project.id' = 2, allow_timesheets = True, analytic_account_id = Some 2, allocated_hours = 0\<rparr>,
         \<lparr>project.id' = 3, allow_timesheets = True, analytic_account_id = Some 3, allocated_hours = 0\<rparr>],
        analytic_accounts := [1, 2, 3]\<rparr>)"
  using analytic_account_provisioned
          [of 0 "[Map.empty]" "[''allow_timesheets'' \<mapsto> PyBool True]" example_db
              "[''allow_timesheets'' \<mapsto> PyBool True]" "[3]" 3
              "\<lparr>project.id' = 3, allow_timesheets = False, analytic_account_id = None, allocated_hours = 0\<rparr>"]
  by (simp add: example_db_def py_get_def py_get_default_def find_project_def
        create_analytic_account_def create_analytic_account_from_values_def fresh_id_def
        update_records_def orm_project_write_def orm_project_create_def assign_project_def
        new_project_def Let_def Project_create_def Project_write_def)

section \<open>Properties of the hours spent on sub-tasks\<close>

lemma foldl_add_sum_list: "foldl (+) a xs = (a::real) + sum_list xs"
  by (induction xs arbitrary: a) simp_all

lemma py_sum_sum_list: "py_sum xs = sum_list xs"
  by (simp add: py_sum_def foldl_add_sum_list)

lemma subtask_hours_sum_eq:
  "subtask_hours_sum d i =
     (\<Sum>c\<leftarrow>filter (\<lambda>c. parent_id c = Some i) (tasks d).
         effective_hours c + subtask_effective_hours c)"
  by (simp add: subtask_hours_sum_def py_sum_sum_list child_ids_def)

lemma find_task_update:
  assumes "\<And>r. task.id' (f r) = task.id' r"
  shows "find_task (d\<lparr>tasks := update_records task.id' [p] f (tasks d)\<rparr>) i =
         map_option (\<lambda>r. if i = p then f r else r) (find_task d i)"
  unfolding find_task_def using assms by (simp add: find_update_records)

lemma parent_of_update:
  assumes "\<And>r. task.id' (f r) = task.id' r" and "\<And>r. parent_id (f r) = parent_id r"
  shows "parent_of (d\<lparr>tasks := update_records task.id' [p] f (tasks d)\<rparr>) i = parent_of d i"
  unfolding parent_of_def
  by (simp add: find_task_update assms split: option.splits)

lemma ids_update:
  assumes "\<And>r. task.id' (f r) = task.id' r"
  shows "map task.id' (update_records task.id' self f rs) = map task.id' rs"
  using assms by (induction rs) (simp_all add: update_records_def)

lemma parent_of_distinct:
  assumes "distinct (map task.id' (tasks d))" and "c \<in> set (tasks d)"
  shows "parent_of d (task.id' c) = parent_id c"
  using find_distinct [OF assms] by (simp add: parent_of_def find_task_def)

text \<open>
  Changing the hours of the task \<open>p\<close> changes the sum of a task \<open>x\<close> only if \<open>x\<close> is the
  parent of \<open>p\<close>.
\<close>

lemma subtask_hours_sum_update:
  assumes dist: "distinct (map task.id' (tasks d))"
      and idf: "\<And>r. task.id' (f r) = task.id' r"
      and parf: "\<And>r. parent_id (f r) = parent_id r"
      and other: "parent_of d p \<noteq> Some x"
  shows "subtask_hours_sum (d\<lparr>tasks := update_records task.id' [p] f (tasks d)\<rparr>) x =
         subtask_hours_sum d x"
proof -
  have keep: "(if task.id' c = p then f c else c) = c"
    if "c \<in> set (tasks d)" "parent_id c = Some x" for c
  proof -
    from parent_of_distinct [OF dist that(1)] that(2) other
    have "task.id' c \<noteq> p" by auto
    then show ?thesis by simp
  qed
  have "filter (\<lambda>c. parent_id c = Some x)
          (map (\<lambda>c. if task.id' c = p then f c else c) (tasks d)) =
        map (\<lambda>c. if task.id' c = p then f c else c)
          (filter (\<lambda>c. parent_id c = Some x) (tasks d))"
    by (simp add: filter_map comp_def parf if_distrib [of parent_id] cong: if_cong)
  also have "\<dots> = filter (\<lambda>c. parent_id c = Some x) (tasks d)"
    by (rule map_idI) (simp add: keep)
  finally show ?thesis
    by (simp add: subtask_hours_sum_eq update_records_def)
qed

lemma settled_except_None: "settled_except d None = settled d"
  by (simp add: settled_except_def settled_def list_all_iff)

lemma settled_after_effective_hours:
  assumes dist: "distinct (map task.id' (tasks d))" and s: "settled d"
  shows "settled_except
           (d\<lparr>tasks := update_records task.id' [i] (\<lambda>t. t\<lparr>effective_hours := h\<rparr>) (tasks d)\<rparr>)
           (parent_of d i)"
  unfolding settled_except_def
proof (intro ballI impI)
  let ?f = "\<lambda>t. t\<lparr>effective_hours := h\<rparr>"
  let ?d1 = "d\<lparr>tasks := update_records task.id' [i] ?f (tasks d)\<rparr>"
  fix t assume t: "t \<in> set (tasks ?d1)" and ne: "Some (task.id' t) \<noteq> parent_of d i"
  from t obtain t0 where t0: "t0 \<in> set (tasks d)" "t = (if task.id' t0 = i then ?f t0 else t0)"
    by (auto simp: update_records_def)
  have same: "task.id' t = task.id' t0" "subtask_effective_hours t = subtask_effective_hours t0"
    by (simp_all add: t0(2))
  have "subtask_hours_sum ?d1 (task.id' t) = subtask_hours_sum d (task.id' t)"
    using ne by (intro subtask_hours_sum_update dist) auto
  moreover have "subtask_effective_hours t0 = subtask_hours_sum d (task.id' t0)"
    using s t0(1) by (simp add: settled_def list_all_iff)
  ultimately show "subtask_effective_hours t = subtask_hours_sum ?d1 (task.id' t)"
    by (simp add: same)
qed

lemma settled_after_compute:
  assumes dist: "distinct (map task.id' (tasks d))" and s: "settled_except d (Some p)"
  shows "settled_except (compute_subtask_effective_hours [p] d) (parent_of d p)"
  unfolding settled_except_def
proof (intro ballI impI)
  let ?f = "\<lambda>t. t\<lparr>subtask_effective_hours := subtask_hours_sum d p\<rparr>"
  let ?d1 = "d\<lparr>tasks := update_records task.id' [p] ?f (tasks d)\<rparr>"
  have d1: "compute_subtask_effective_hours [p] d = ?d1"
    by simp
  fix t assume "t \<in> set (tasks (compute_subtask_effective_hours [p] d))"
    and ne: "Some (task.id' t) \<noteq> parent_of d p"
  then have t: "t \<in> set (tasks ?d1)"
    by simp
  from t obtain t0 where t0: "t0 \<in> set (tasks d)" "t = (if task.id' t0 = p then ?f t0 else t0)"
    by (auto simp: update_records_def)
  have same: "task.id' t = task.id' t0"
    by (simp add: t0(2))
  have sum: "subtask_hours_sum ?d1 (task.id' t) = subtask_hours_sum d (task.id' t)"
    using ne by (intro subtask_hours_sum_update dist) auto
  show "subtask_effective_hours t =
          subtask_hours_sum (compute_subtask_effective_hours [p] d) (task.id' t)"
  proof (cases "task.id' t0 = p")
    case True
    then show ?thesis
      unfolding d1 sum by (simp add: t0(2))
  next
    case False
    then have "subtask_effective_hours t0 = subtask_hours_sum d (task.id' t0)"
      using s t0(1) by (simp add: settled_except_def)
    with False show ?thesis
      unfolding d1 sum by (simp add: t0(2))
  qed
qed

lemma parent_of_compute:
  "parent_of (compute_subtask_effective_hours [p] d) i = parent_of d i"
  by (simp add: parent_of_update)

lemma reaches_root_compute:
  "reaches_root n (compute_subtask_effective_hours [p] d) i = reaches_root n d i"
  by (induction n arbitrary: i) (simp_all add: parent_of_update split: option.splits)

lemma recompute_parents_settles:
  assumes "distinct (map task.id' (tasks d))"
      and "settled_except d (parent_of d i)"
      and "reaches_root n d i"
  shows "settled (recompute_parents n i d)"
  using assms
proof (induction n arbitrary: d i)
  case 0
  then show ?case
    by (simp add: settled_except_None)
next
  case (Suc n)
  show ?case
  proof (cases "parent_of d i")
    case None
    with Suc.prems show ?thesis
      by (simp add: settled_except_None)
  next
    case (Some p)
    let ?d1 = "compute_subtask_effective_hours [p] d"
    have dist1: "distinct (map task.id' (tasks ?d1))"
      using Suc.prems(1) by (simp add: ids_update)
    have "settled_except ?d1 (parent_of d p)"
      using Suc.prems(1,2) unfolding Some by (rule settled_after_compute)
    then have s1: "settled_except ?d1 (parent_of ?d1 p)"
      by (simp only: parent_of_compute)
    have r1: "reaches_root n ?d1 p"
      using Suc.prems(3) Some by (simp only: reaches_root_compute) simp
    from Suc.IH [OF dist1 s1 r1] show ?thesis
      by (simp add: Some)
  qed
qed

lemma set_effective_hours_settled:
  assumes "settled d" and "distinct (map task.id' (tasks d))" and "reaches_root n d i"
  shows "settled (set_effective_hours n i h d)"
proof -
  let ?f = "\<lambda>t. t\<lparr>effective_hours := h\<rparr>"
  let ?d1 = "d\<lparr>tasks := update_records task.id' [i] ?f (tasks d)\<rparr>"
  have par: "parent_of ?d1 x = parent_of d x" for x
    by (simp add: parent_of_update)
  have reach: "reaches_root m ?d1 x = reaches_root m d x" for m x
    by (induction m arbitrary: x) (simp_all add: par split: option.splits)
  have "distinct (map task.id' (tasks ?d1))"
    using assms(2) by (simp add: ids_update)
  moreover have "settled_except ?d1 (parent_of ?d1 i)"
    unfolding par using assms(2,1) by (rule settled_after_effective_hours)
  moreover have "reaches_root n ?d1 i"
    using assms(3) by (simp add: reach)
  ultimately show ?thesis
    unfolding set_effective_hours_def by (rule recompute_parents_settles)
qed

lemma sum_list_map_concat:
  "sum_list (map f (concat (map g xs))) = (\<Sum>x\<leftarrow>xs. sum_list (map f (g x)))"
  by (induction xs) simp_all

lemma settled_rollup:
  assumes "settled d"
  shows "t \<in> set (tasks d) \<Longrightarrow> depth_le n d (task.id' t) \<Longrightarrow>
         subtask_effective_hours t =
           sum_list (map effective_hours (descendants (Suc n) d (task.id' t)))"
proof (induction n arbitrary: t)
  case 0
  have "subtask_effective_hours t = subtask_hours_sum d (task.id' t)"
    using assms 0(1) by (simp add: settled_def list_all_iff)
  with 0(2) show ?case
    by (simp add: subtask_hours_sum_def py_sum_sum_list)
next
  case (Suc n)
  have st: "subtask_effective_hours t = subtask_hours_sum d (task.id' t)"
    using assms Suc.prems(1) by (simp add: settled_def list_all_iff)
  have child: "subtask_effective_hours c =
      sum_list (map effective_hours (descendants (Suc n) d (task.id' c)))"
    if "c \<in> set (child_ids False d (task.id' t))" for c
  proof -
    from that have "c \<in> set (tasks d)"
      by (simp add: child_ids_def)
    moreover from that Suc.prems(2) have "depth_le n d (task.id' c)"
      by (simp add: list_all_iff)
    ultimately show ?thesis by (rule Suc.IH)
  qed
  have "subtask_hours_sum d (task.id' t) =
      (\<Sum>c\<leftarrow>child_ids False d (task.id' t).
          effective_hours c + sum_list (map effective_hours (descendants (Suc n) d (task.id' c))))"
    unfolding subtask_hours_sum_def py_sum_sum_list
    by (rule arg_cong [where f = sum_list], rule map_cong) (simp_all add: child)
  also have "\<dots> = sum_list (map effective_hours (descendants (Suc (Suc n)) d (task.id' t)))"
    unfolding descendants.simps(2) [of "Suc n"] sum_list_map_concat
    by simp
  finally show ?case
    using st by simp
qed

text \<open>
  Claim C5. The compute method stores on a task the sum, over its direct sub-tasks
  (archived ones included), of the sub-task's \<^verbatim>\<open>effective_hours\<close> plus its
  \<^verbatim>\<open>subtask_effective_hours\<close>. Where every stored value is the computed one, the value
  of a task is the sum of the \<^verbatim>\<open>effective_hours\<close> of all its descendants. And the
  values stay the computed ones when the hours of a task change: the recomputation
  climbs from the task to the root of its hierarchy.
\<close>

theorem subtask_hours_rollup:
  "(find_task d i = Some t \<longrightarrow>
      find_task (compute_subtask_effective_hours [i] d) i =
        Some (t\<lparr>subtask_effective_hours :=
                  (\<Sum>c\<leftarrow>filter (\<lambda>c. parent_id c = Some i) (tasks d).
                      effective_hours c + subtask_effective_hours c)\<rparr>)) \<and>
   (settled d \<and> u \<in> set (tasks d) \<and> depth_le n d (task.id' u) \<longrightarrow>
      subtask_effective_hours u =
        sum_list (map effective_hours (descendants (Suc n) d (task.id' u)))) \<and>
   (settled d \<and> distinct (map task.id' (tasks d)) \<and> reaches_root m d j \<longrightarrow>
      settled (set_effective_hours m j h d))"
proof (intro conjI impI)
  assume "find_task d i = Some t"
  then show "find_task (compute_subtask_effective_hours [i] d) i =
        Some (t\<lparr>subtask_effective_hours :=
                  (\<Sum>c\<leftarrow>filter (\<lambda>c. parent_id c = Some i) (tasks d).
                      effective_hours c + subtask_effective_hours c)\<rparr>)"
    by (simp add: find_task_update subtask_hours_sum_eq)
next
  assume "settled d \<and> u \<in> set (tasks d) \<and> depth_le n d (task.id' u)"
  then show "subtask_effective_hours u =
        sum_list (map effective_hours (descendants (Suc n) d (task.id' u)))"
    using settled_rollup by blast
next
  assume "settled d \<and> distinct (map task.id' (tasks d)) \<and> reaches_root m d j"
  then show "settled (set_effective_hours m j h d)"
    using set_effective_hours_settled by blast
qed

theorem subtask_hours_rollup_witness:
  "find_task (compute_subtask_effective_hours [1] example_db) 1 = find_task example_db 1 \<and>
   map active (child_ids False example_db 1) = [False] \<and>
   settled example_db \<and>
   depth_le (Suc 0) example_db 1 \<and>
   sum_list (map effective_hours (descendants (Suc (Suc 0)) example_db 1)) = 3 \<and>
   reaches_root (Suc 0) example_db 2 \<and>
   settled (set_effective_hours (Suc 0) 2 5 example_db) \<and>
   map subtask_effective_hours (tasks (set_effective_hours (Suc 0) 2 5 example_db)) = [5, 0]"
  using subtask_hours_rollup
          [of example_db 1
              "\<lparr>task.id' = 1, project_id = Some 1, parent_id = None, active = True,
                planned_hours = 8, effective_hours = 2, subtask_effective_hours = 3,
                remaining_hours = 3, remaining_hours_percentage = 0, progress = 0, overtime = 0\<rparr>"
              "\<lparr>task.id' = 1, project_id = Some 1, parent_id = None, active = True,
                planned_hours = 8, effective_hours = 2, subtask_effective_hours = 3,
                remaining_hours = 3, remaining_hours_percentage = 0, progress = 0, overtime = 0\<rparr>"
              "Suc 0" "Suc 0" 2 5]
  by (simp add: example_db_def find_task_def parent_of_def child_ids_def settled_def
        subtask_hours_sum_def py_sum_def set_effective_hours_def update_records_def)

end
